theory Spec2Isabelle
  imports Complex_Main "HOL-Library.Char_ord" "HOL-Library.List_Lexorder"
begin

chapter \<open>The Whoop MCP server: store, sync engine, gateway and credential store\<close>

text \<open>
  A shallow embedding of the TypeScript sources \<^verbatim>\<open>database.ts\<close>, \<^verbatim>\<open>sync.ts\<close>,
  \<^verbatim>\<open>whoop-client.ts\<close>, \<^verbatim>\<open>crypto.ts\<close> and \<^verbatim>\<open>index.ts\<close>.

  Conventions of the model.
  \<^item> An instant is a number of milliseconds since the Unix epoch, as \<^verbatim>\<open>Date.now()\<close>
    returns it. The host clock is an argument of every operation that reads it.
  \<^item> A column written from SQLite's \<^verbatim>\<open>CURRENT_TIMESTAMP\<close> holds the reading of
    SQLite's clock, which has whole seconds and is in UTC. SQLite renders it as the text
    \<^verbatim>\<open>YYYY-MM-DD HH:MM:SS\<close>, without a zone; where the sources read that text back
    with \<^verbatim>\<open>new Date(...)\<close>, the model applies what JavaScript does to a text of this
    form: it takes it for local time of the host.
  \<^item> Every other \<^verbatim>\<open>TEXT\<close> column is a \<^typ>\<open>string\<close> (a list of bytes), and text is
    compared as SQLite's default collation compares it: byte by byte, which is the
    lexicographic order of \<^theory_text>\<open>List_Lexorder\<close> over \<^theory_text>\<open>Char_ord\<close>.
  \<^item> A JavaScript \<^verbatim>\<open>number\<close> that may be fractional and a \<^verbatim>\<open>REAL\<close> column are
    rationals; identifiers are integers. \<^verbatim>\<open>NULL\<close>, \<^verbatim>\<open>null\<close> and \<^verbatim>\<open>undefined\<close> are
    \<^term>\<open>None\<close>.
  \<^item> A table with a primary key is the list of its rows; \<^verbatim>\<open>INSERT OR REPLACE\<close>
    deletes the rows that hold the new row's key and appends the new row.
\<close>

section \<open>Data model (\<^verbatim>\<open>types.ts\<close> and the schema of \<^verbatim>\<open>database.ts\<close>)\<close>

type_synonym instant = int

datatype score_state = SCORED | PENDING_SCORE | UNSCORABLE

fun score_state_text :: "score_state \<Rightarrow> string" where
  "score_state_text SCORED = ''SCORED''"
| "score_state_text PENDING_SCORE = ''PENDING_SCORE''"
| "score_state_text UNSCORABLE = ''UNSCORABLE''"

record WhoopTokens =
  access_token :: string
  refresh_token :: string
  expires_at :: int

subsection \<open>Upstream records\<close>

record cycle_score =
  cs_strain :: rat
  cs_kilojoule :: rat
  cs_average_heart_rate :: rat
  cs_max_heart_rate :: rat

record WhoopCycle =
  c_id :: int
  c_user_id :: int
  c_start :: string
  c_end :: "string option"
  c_timezone_offset :: string
  c_score_state :: score_state
  c_score :: "cycle_score option"

record recovery_score =
  rs_user_calibrating :: bool
  rs_recovery_score :: rat
  rs_resting_heart_rate :: rat
  rs_hrv_rmssd_milli :: rat
  rs_spo2_percentage :: "rat option"
  rs_skin_temp_celsius :: "rat option"

record WhoopRecovery =
  r_cycle_id :: int
  r_sleep_id :: string
  r_user_id :: int
  r_created_at :: string
  r_updated_at :: string
  r_score_state :: score_state
  r_score :: "recovery_score option"

record stage_summary =
  total_in_bed_time_milli :: rat
  total_awake_time_milli :: rat
  total_no_data_time_milli :: rat
  total_light_sleep_time_milli :: rat
  total_slow_wave_sleep_time_milli :: rat
  total_rem_sleep_time_milli :: rat
  sleep_cycle_count :: rat
  disturbance_count :: rat

record sleep_needed =
  baseline_milli :: rat
  need_from_sleep_debt_milli :: rat
  need_from_recent_strain_milli :: rat
  need_from_recent_nap_milli :: rat

record sleep_score =
  ss_stage_summary :: stage_summary
  ss_sleep_needed :: sleep_needed
  ss_respiratory_rate :: rat
  ss_sleep_performance_percentage :: rat
  ss_sleep_consistency_percentage :: rat
  ss_sleep_efficiency_percentage :: rat

record WhoopSleep =
  s_id :: string
  s_user_id :: int
  s_created_at :: string
  s_updated_at :: string
  s_start :: string
  s_end :: string
  s_timezone_offset :: string
  s_nap :: bool
  s_score_state :: score_state
  s_score :: "sleep_score option"

record zone_duration =
  zone_zero_milli :: rat
  zone_one_milli :: rat
  zone_two_milli :: rat
  zone_three_milli :: rat
  zone_four_milli :: rat
  zone_five_milli :: rat

record workout_score =
  ws_strain :: rat
  ws_average_heart_rate :: rat
  ws_max_heart_rate :: rat
  ws_kilojoule :: rat
  ws_percent_recorded :: rat
  ws_zone_duration :: zone_duration

record WhoopWorkout =
  w_id :: string
  w_user_id :: int
  w_created_at :: string
  w_updated_at :: string
  w_start :: string
  w_end :: string
  w_timezone_offset :: string
  w_sport_id :: int
  w_score_state :: score_state
  w_score :: "workout_score option"

subsection \<open>Rows of the store\<close>

record DbCycle =
  dc_id :: int
  dc_user_id :: int
  dc_start_time :: string
  dc_end_time :: "string option"
  dc_score_state :: string
  dc_strain :: "rat option"
  dc_kilojoule :: "rat option"
  dc_avg_hr :: "rat option"
  dc_max_hr :: "rat option"
  dc_synced_at :: instant

record DbRecovery =
  dr_id :: int
  dr_user_id :: int
  dr_sleep_id :: string
  dr_created_at :: string
  dr_score_state :: string
  dr_recovery_score :: "rat option"
  dr_resting_hr :: "rat option"
  dr_hrv_rmssd :: "rat option"
  dr_spo2 :: "rat option"
  dr_skin_temp :: "rat option"
  dr_synced_at :: instant

record DbSleep =
  ds_id :: string
  ds_user_id :: int
  ds_cycle_id :: "int option"
  ds_start_time :: string
  ds_end_time :: string
  ds_is_nap :: int
  ds_score_state :: string
  ds_total_in_bed_milli :: "rat option"
  ds_total_awake_milli :: "rat option"
  ds_total_light_milli :: "rat option"
  ds_total_deep_milli :: "rat option"
  ds_total_rem_milli :: "rat option"
  ds_sleep_performance :: "rat option"
  ds_sleep_efficiency :: "rat option"
  ds_sleep_consistency :: "rat option"
  ds_respiratory_rate :: "rat option"
  ds_sleep_needed_baseline_milli :: "rat option"
  ds_sleep_needed_debt_milli :: "rat option"
  ds_sleep_needed_strain_milli :: "rat option"
  ds_synced_at :: instant

record DbWorkout =
  dw_id :: string
  dw_user_id :: int
  dw_sport_id :: int
  dw_start_time :: string
  dw_end_time :: string
  dw_score_state :: string
  dw_strain :: "rat option"
  dw_avg_hr :: "rat option"
  dw_max_hr :: "rat option"
  dw_kilojoule :: "rat option"
  dw_zone_zero_milli :: "rat option"
  dw_zone_one_milli :: "rat option"
  dw_zone_two_milli :: "rat option"
  dw_zone_three_milli :: "rat option"
  dw_zone_four_milli :: "rat option"
  dw_zone_five_milli :: "rat option"
  dw_synced_at :: instant

text \<open>The singleton row of \<^verbatim>\<open>sync_state\<close>, created with all three columns
  \<^verbatim>\<open>NULL\<close> by \<^verbatim>\<open>INSERT OR IGNORE INTO sync_state (id) VALUES (1)\<close>.\<close>

record SyncStateRow =
  last_sync_at :: "instant option"
  oldest_synced_date :: "string option"
  newest_synced_date :: "string option"

text \<open>The singleton row of \<^verbatim>\<open>tokens\<close>: the two token columns hold what
  \<^verbatim>\<open>saveTokens\<close> wrote, ciphertext or legacy plaintext.\<close>

record TokenRow =
  tr_access_token :: string
  tr_refresh_token :: string
  tr_expires_at :: int
  tr_updated_at :: instant

record WhoopDatabase =
  tokens :: "TokenRow option"
  sync_state :: SyncStateRow
  cycles :: "DbCycle list"
  recovery :: "DbRecovery list"
  sleep :: "DbSleep list"
  workouts :: "DbWorkout list"

definition initSchema :: WhoopDatabase where
  "initSchema =
     \<lparr>tokens = None,
      sync_state = \<lparr>last_sync_at = None, oldest_synced_date = None, newest_synced_date = None\<rparr>,
      cycles = [], recovery = [], sleep = [], workouts = []\<rparr>"

section \<open>Local store: merge of upstream records (\<^verbatim>\<open>database.ts\<close>)\<close>

text \<open>\<^verbatim>\<open>INSERT OR REPLACE\<close> on a table whose only uniqueness constraint is the primary
  key: the rows with the key of the new row are deleted, then the new row is inserted.\<close>

definition insert_or_replace :: "('r \<Rightarrow> 'k) \<Rightarrow> 'r \<Rightarrow> 'r list \<Rightarrow> 'r list" where
  "insert_or_replace key r tbl = filter (\<lambda>x. key x \<noteq> key r) tbl @ [r]"

text \<open>The transaction body \<^verbatim>\<open>for (const c of items) stmt.run(...)\<close>.\<close>

definition run_all :: "('r \<Rightarrow> 'k) \<Rightarrow> 'r list \<Rightarrow> 'r list \<Rightarrow> 'r list" where
  "run_all key rows tbl = foldl (\<lambda>t r. insert_or_replace key r t) tbl rows"

text \<open>The values bound by \<^verbatim>\<open>stmt.run\<close>; \<^verbatim>\<open>c.score?.strain ?? null\<close> is
  \<^term>\<open>map_option cs_strain (c_score c)\<close>.\<close>

definition cycle_row :: "instant \<Rightarrow> WhoopCycle \<Rightarrow> DbCycle" where
  "cycle_row now c =
     \<lparr>dc_id = c_id c, dc_user_id = c_user_id c, dc_start_time = c_start c,
      dc_end_time = c_end c, dc_score_state = score_state_text (c_score_state c),
      dc_strain = map_option cs_strain (c_score c),
      dc_kilojoule = map_option cs_kilojoule (c_score c),
      dc_avg_hr = map_option cs_average_heart_rate (c_score c),
      dc_max_hr = map_option cs_max_heart_rate (c_score c),
      dc_synced_at = now\<rparr>"

definition recovery_row :: "instant \<Rightarrow> WhoopRecovery \<Rightarrow> DbRecovery" where
  "recovery_row now r =
     \<lparr>dr_id = r_cycle_id r, dr_user_id = r_user_id r, dr_sleep_id = r_sleep_id r,
      dr_created_at = r_created_at r, dr_score_state = score_state_text (r_score_state r),
      dr_recovery_score = map_option rs_recovery_score (r_score r),
      dr_resting_hr = map_option rs_resting_heart_rate (r_score r),
      dr_hrv_rmssd = map_option rs_hrv_rmssd_milli (r_score r),
      dr_spo2 = Option.bind (r_score r) rs_spo2_percentage,
      dr_skin_temp = Option.bind (r_score r) rs_skin_temp_celsius,
      dr_synced_at = now\<rparr>"

text \<open>The statement names no \<^verbatim>\<open>cycle_id\<close> column, so the new row has it \<^verbatim>\<open>NULL\<close>.\<close>

definition sleep_row :: "instant \<Rightarrow> WhoopSleep \<Rightarrow> DbSleep" where
  "sleep_row now s =
     \<lparr>ds_id = s_id s, ds_user_id = s_user_id s, ds_cycle_id = None,
      ds_start_time = s_start s, ds_end_time = s_end s,
      ds_is_nap = (if s_nap s then 1 else 0),
      ds_score_state = score_state_text (s_score_state s),
      ds_total_in_bed_milli = map_option (total_in_bed_time_milli \<circ> ss_stage_summary) (s_score s),
      ds_total_awake_milli = map_option (total_awake_time_milli \<circ> ss_stage_summary) (s_score s),
      ds_total_light_milli =
        map_option (total_light_sleep_time_milli \<circ> ss_stage_summary) (s_score s),
      ds_total_deep_milli =
        map_option (total_slow_wave_sleep_time_milli \<circ> ss_stage_summary) (s_score s),
      ds_total_rem_milli = map_option (total_rem_sleep_time_milli \<circ> ss_stage_summary) (s_score s),
      ds_sleep_performance = map_option ss_sleep_performance_percentage (s_score s),
      ds_sleep_efficiency = map_option ss_sleep_efficiency_percentage (s_score s),
      ds_sleep_consistency = map_option ss_sleep_consistency_percentage (s_score s),
      ds_respiratory_rate = map_option ss_respiratory_rate (s_score s),
      ds_sleep_needed_baseline_milli = map_option (baseline_milli \<circ> ss_sleep_needed) (s_score s),
      ds_sleep_needed_debt_milli =
        map_option (need_from_sleep_debt_milli \<circ> ss_sleep_needed) (s_score s),
      ds_sleep_needed_strain_milli =
        map_option (need_from_recent_strain_milli \<circ> ss_sleep_needed) (s_score s),
      ds_synced_at = now\<rparr>"

definition workout_row :: "instant \<Rightarrow> WhoopWorkout \<Rightarrow> DbWorkout" where
  "workout_row now w =
     \<lparr>dw_id = w_id w, dw_user_id = w_user_id w, dw_sport_id = w_sport_id w,
      dw_start_time = w_start w, dw_end_time = w_end w,
      dw_score_state = score_state_text (w_score_state w),
      dw_strain = map_option ws_strain (w_score w),
      dw_avg_hr = map_option ws_average_heart_rate (w_score w),
      dw_max_hr = map_option ws_max_heart_rate (w_score w),
      dw_kilojoule = map_option ws_kilojoule (w_score w),
      dw_zone_zero_milli = map_option (zone_zero_milli \<circ> ws_zone_duration) (w_score w),
      dw_zone_one_milli = map_option (zone_one_milli \<circ> ws_zone_duration) (w_score w),
      dw_zone_two_milli = map_option (zone_two_milli \<circ> ws_zone_duration) (w_score w),
      dw_zone_three_milli = map_option (zone_three_milli \<circ> ws_zone_duration) (w_score w),
      dw_zone_four_milli = map_option (zone_four_milli \<circ> ws_zone_duration) (w_score w),
      dw_zone_five_milli = map_option (zone_five_milli \<circ> ws_zone_duration) (w_score w),
      dw_synced_at = now\<rparr>"

text \<open>The four upserts. The first argument is the clock that \<^verbatim>\<open>CURRENT_TIMESTAMP\<close>
  reads while the (synchronous) transaction runs.\<close>

definition upsertCycles :: "instant \<Rightarrow> WhoopCycle list \<Rightarrow> WhoopDatabase \<Rightarrow> WhoopDatabase" where
  "upsertCycles now items db = db\<lparr>cycles := run_all dc_id (map (cycle_row now) items) (cycles db)\<rparr>"

definition upsertRecoveries ::
  "instant \<Rightarrow> WhoopRecovery list \<Rightarrow> WhoopDatabase \<Rightarrow> WhoopDatabase" where
  "upsertRecoveries now items db =
     db\<lparr>recovery := run_all dr_id (map (recovery_row now) items) (recovery db)\<rparr>"

definition upsertSleeps :: "instant \<Rightarrow> WhoopSleep list \<Rightarrow> WhoopDatabase \<Rightarrow> WhoopDatabase" where
  "upsertSleeps now items db = db\<lparr>sleep := run_all ds_id (map (sleep_row now) items) (sleep db)\<rparr>"

definition upsertWorkouts :: "instant \<Rightarrow> WhoopWorkout list \<Rightarrow> WhoopDatabase \<Rightarrow> WhoopDatabase" where
  "upsertWorkouts now items db =
     db\<lparr>workouts := run_all dw_id (map (workout_row now) items) (workouts db)\<rparr>"

subsection \<open>Sync-state bookkeeping\<close>

definition getSyncState :: "WhoopDatabase \<Rightarrow> SyncStateRow" where
  "getSyncState db = sync_state db"

text \<open>SQL's \<^verbatim>\<open>COALESCE(x, y)\<close>.\<close>

definition COALESCE :: "'a option \<Rightarrow> 'a \<Rightarrow> 'a option" where
  "COALESCE x y = (case x of None \<Rightarrow> Some y | Some v \<Rightarrow> Some v)"

text \<open>
  \<^verbatim>\<open>UPDATE sync_state SET last_sync_at = CURRENT_TIMESTAMP,
     oldest_synced_date = COALESCE(CASE WHEN oldest_synced_date IS NULL OR ? < oldest_synced_date
                                        THEN ? ELSE oldest_synced_date END, ?),
     newest_synced_date = COALESCE(CASE WHEN newest_synced_date IS NULL OR ? > newest_synced_date
                                        THEN ? ELSE newest_synced_date END, ?)
   WHERE id = 1\<close>
  with all six parameters bound to text.
\<close>

definition updateSyncState :: "instant \<Rightarrow> string \<Rightarrow> string \<Rightarrow> WhoopDatabase \<Rightarrow> WhoopDatabase" where
  "updateSyncState now oldestDate newestDate db =
     (let row = sync_state db in
      db\<lparr>sync_state :=
        \<lparr>last_sync_at = Some now,
         oldest_synced_date =
           COALESCE
             (case oldest_synced_date row of
                None \<Rightarrow> Some oldestDate
              | Some old \<Rightarrow> if oldestDate < old then Some oldestDate else Some old)
             oldestDate,
         newest_synced_date =
           COALESCE
             (case newest_synced_date row of
                None \<Rightarrow> Some newestDate
              | Some new \<Rightarrow> if newestDate > new then Some newestDate else Some new)
             newestDate\<rparr>\<rparr>)"

section \<open>Host functions the sources call\<close>

text \<open>
  The sources call the JavaScript \<^verbatim>\<open>Date\<close> object, SQLite's \<^verbatim>\<open>DATE\<close> function,
  \<^verbatim>\<open>Buffer\<close>'s hex coding and \<^verbatim>\<open>String.prototype.split\<close>. They are written out
  here over the proleptic Gregorian calendar both libraries use. JavaScript's local
  time depends on the time zone of the host, which is a parameter of the model.
\<close>

text \<open>The time zone of the host, as ECMAScript's \<open>LocalTZA(t, isUTC)\<close>: the offset of
  local time from UTC in milliseconds, at a UTC instant and at a local time value.\<close>

record Host =
  LocalTZA_at_utc :: "instant \<Rightarrow> int"
  LocalTZA_at_local :: "instant \<Rightarrow> int"

text \<open>ECMAScript's \<open>LocalTime(t)\<close> and \<open>UTC(t)\<close>.\<close>

definition LocalTime :: "Host \<Rightarrow> instant \<Rightarrow> instant" where
  "LocalTime host t = t + LocalTZA_at_utc host t"

definition UTC :: "Host \<Rightarrow> instant \<Rightarrow> instant" where
  "UTC host t = t - LocalTZA_at_local host t"

text \<open>\<^verbatim>\<open>d.setDate(d.getDate() - days)\<close> on a date with time value \<open>t\<close>: the day of
  the month is read and written in local time, and a day of the month outside the month
  carries over, so the local time value moves back by \<open>days\<close> days of 24 hours and is
  then taken back to UTC.\<close>

definition setDate_back :: "Host \<Rightarrow> instant \<Rightarrow> int \<Rightarrow> instant" where
  "setDate_back host t days = UTC host (LocalTime host t - days * 86400000)"

text \<open>\<^verbatim>\<open>new Date(text).getTime()\<close> for a text \<^verbatim>\<open>YYYY-MM-DD HH:MM:SS\<close> that SQLite
  rendered from the reading \<open>stamp\<close> of its clock: the text names the UTC date and time
  of \<open>stamp\<close>, and JavaScript reads a text of this form as local time.\<close>

definition Date_of_timestamp_text :: "Host \<Rightarrow> instant \<Rightarrow> instant" where
  "Date_of_timestamp_text host stamp = UTC host stamp"

text \<open>A host on UTC (as the repository's container image), a host five hours behind UTC
  all year, and a host one hour ahead of UTC until 01:00 UTC on 31 March 2024 and two
  hours ahead from then on.\<close>

definition utc_host :: Host where
  "utc_host = \<lparr>LocalTZA_at_utc = (\<lambda>t. 0), LocalTZA_at_local = (\<lambda>t. 0)\<rparr>"

definition utc_minus_5_host :: Host where
  "utc_minus_5_host =
     \<lparr>LocalTZA_at_utc = (\<lambda>t. - 18000000), LocalTZA_at_local = (\<lambda>t. - 18000000)\<rparr>"

definition summer_time_host :: Host where
  "summer_time_host =
     \<lparr>LocalTZA_at_utc = (\<lambda>t. if t < 1711846800000 then 3600000 else 7200000),
      LocalTZA_at_local = (\<lambda>t. if t < 1711854000000 then 3600000 else 7200000)\<rparr>"

definition msPerDay :: int where
  "msPerDay = 86400000"


definition civil_from_days :: "int \<Rightarrow> int \<times> int \<times> int" where
  "civil_from_days z =
     (let z' = z + 719468;
          era = z' div 146097;
          doe = z' - era * 146097;
          yoe = (doe - doe div 1460 + doe div 36524 - doe div 146096) div 365;
          doy = doe - (365 * yoe + yoe div 4 - yoe div 100);
          mp = (5 * doy + 2) div 153;
          d = doy - (153 * mp + 2) div 5 + 1;
          m = (if mp < 10 then mp + 3 else mp - 9)
      in (if m \<le> 2 then yoe + era * 400 + 1 else yoe + era * 400, m, d))"

definition digit_char :: "nat \<Rightarrow> char" where
  "digit_char n = char_of (48 + n mod 10)"

text \<open>The last \<open>n\<close> decimal digits of \<open>k\<close>, zero padded.\<close>

fun pad :: "nat \<Rightarrow> nat \<Rightarrow> string" where
  "pad 0 k = []"
| "pad (Suc n) k = pad n (k div 10) @ [digit_char k]"

definition pad_int :: "nat \<Rightarrow> int \<Rightarrow> string" where
  "pad_int n k = pad n (nat k)"

text \<open>\<^verbatim>\<open>Date.prototype.toISOString\<close>: \<^verbatim>\<open>YYYY-MM-DDTHH:mm:ss.sssZ\<close>, with the expanded
  year \<^verbatim>\<open>\<plusminus>YYYYYY\<close> outside the years 0 to 9999. A time value outside
  \<open>\<plusminus>8.64\<cdot>10\<^sup>1\<^sup>5\<close> is an invalid date, for which the method throws a
  \<^verbatim>\<open>RangeError\<close>: the model returns \<^term>\<open>None\<close>.\<close>

definition iso_year :: "int \<Rightarrow> string" where
  "iso_year y =
     (if 0 \<le> y \<and> y \<le> 9999 then pad_int 4 y
      else (if y < 0 then ''-'' else ''+'') @ pad_int 6 \<bar>y\<bar>)"

definition valid_time_value :: "instant \<Rightarrow> bool" where
  "valid_time_value t \<longleftrightarrow> \<bar>t\<bar> \<le> 8640000000000000"

definition iso_date :: "instant \<Rightarrow> string" where
  "iso_date t =
     (case civil_from_days (t div msPerDay) of
        (y, m, d) \<Rightarrow> iso_year y @ ''-'' @ pad_int 2 m @ ''-'' @ pad_int 2 d)"

definition iso_time :: "instant \<Rightarrow> string" where
  "iso_time t =
     (let ms = t mod msPerDay in
      pad_int 2 (ms div 3600000) @ '':'' @ pad_int 2 (ms div 60000 mod 60) @ '':''
      @ pad_int 2 (ms div 1000 mod 60) @ ''.'' @ pad_int 3 (ms mod 1000))"

definition toISOString :: "instant \<Rightarrow> string option" where
  "toISOString t =
     (if \<not> valid_time_value t then None
      else Some (iso_date t @ ''T'' @ iso_time t @ ''Z''))"

text \<open>\<^verbatim>\<open>s.split(sep)\<close> for a one-character separator, and \<^verbatim>\<open>s.split(sep)[0]\<close>.\<close>

fun split_at :: "char \<Rightarrow> string \<Rightarrow> string list" where
  "split_at sep [] = [[]]"
| "split_at sep (c # cs) =
     (if c = sep then [] # split_at sep cs
      else (case split_at sep cs of p # ps \<Rightarrow> (c # p) # ps | [] \<Rightarrow> [[c]]))"

definition split_head :: "char \<Rightarrow> string \<Rightarrow> string" where
  "split_head sep s = (case split_at sep s of p # ps \<Rightarrow> p | [] \<Rightarrow> [])"

text \<open>A JavaScript \<^verbatim>\<open>number\<close>: the finite ones as the rationals they denote.\<close>

datatype js_number = NaN | Fin rat | PosInf | NegInf

text \<open>SQLite's \<^verbatim>\<open>DATE('now', '-' || ? || ' days')\<close> with the parameter bound to a
  number. A negative number gives the text \<^verbatim>\<open>--N days\<close>, which is no modifier, and a
  shift of 5373485 days or more is refused: the result is \<^verbatim>\<open>NULL\<close>. A number that is
  not finite is bound as \<^verbatim>\<open>NULL\<close> or rendered as a text that is no number, with the
  same result. The shift is rounded to the millisecond. A result outside SQLite's range
  of dates (24 November 4714 BC to the end of the year 9999) is \<^verbatim>\<open>NULL\<close> too; a year
  before 0 is rendered with a minus sign.\<close>

definition sql_date_text :: "int \<times> int \<times> int \<Rightarrow> string" where
  "sql_date_text ymd =
     (case ymd of (y, m, d) \<Rightarrow>
        (if y < 0 then ''-'' else []) @ pad_int 4 \<bar>y\<bar> @ ''-'' @ pad_int 2 m @ ''-'' @ pad_int 2 d)"

definition valid_julian_day :: "instant \<Rightarrow> bool" where
  "valid_julian_day t \<longleftrightarrow> 0 \<le> t + 210866760000000 \<and> t + 210866760000000 \<le> 464269060799999"

definition DATE_now_minus_days :: "instant \<Rightarrow> js_number \<Rightarrow> string option" where
  "DATE_now_minus_days now days =
     (case days of
        Fin n \<Rightarrow>
          (let t = now - \<lfloor>n * of_int msPerDay + 1 / 2\<rfloor> in
           if n < 0 \<or> 5373485 \<le> n then None
           else if \<not> valid_julian_day now \<or> \<not> valid_julian_day t then None
           else Some (sql_date_text (civil_from_days (t div msPerDay))))
      | _ \<Rightarrow> None)"

text \<open>\<^verbatim>\<open>Buffer.prototype.toString('hex')\<close> and \<^verbatim>\<open>Buffer.from(s, 'hex')\<close>; the decoder
  stops at the first pair that is not two hexadecimal digits.\<close>

definition hex_digit :: "nat \<Rightarrow> char" where
  "hex_digit n = (if n < 10 then char_of (48 + n) else char_of (87 + n))"

definition hex_value :: "char \<Rightarrow> nat option" where
  "hex_value c =
     (let n = (of_char c :: nat) in
      if 48 \<le> n \<and> n \<le> 57 then Some (n - 48)
      else if 97 \<le> n \<and> n \<le> 102 then Some (n - 87)
      else if 65 \<le> n \<and> n \<le> 70 then Some (n - 55)
      else None)"

fun to_hex :: "string \<Rightarrow> string" where
  "to_hex [] = []"
| "to_hex (b # bs) = hex_digit (of_char b div 16) # hex_digit (of_char b mod 16) # to_hex bs"

fun from_hex :: "string \<Rightarrow> string" where
  "from_hex (h # l # cs) =
     (case (hex_value h, hex_value l) of
        (Some x, Some y) \<Rightarrow> char_of (16 * x + y) # from_hex cs
      | _ \<Rightarrow> [])"
| "from_hex cs = []"

text \<open>SQLite's \<^verbatim>\<open>ROUND(x, n)\<close>, half away from zero.\<close>

definition ROUND :: "rat \<Rightarrow> nat \<Rightarrow> rat" where
  "ROUND x n =
     (if 0 \<le> x then of_int \<lfloor>x * 10 ^ n + 1 / 2\<rfloor> / 10 ^ n
      else - (of_int \<lfloor>- x * 10 ^ n + 1 / 2\<rfloor> / 10 ^ n))"

section \<open>Local store: queries (\<^verbatim>\<open>database.ts\<close>)\<close>

text \<open>\<^verbatim>\<open>ORDER BY key DESC\<close>. SQL leaves the order of rows with equal keys open; the
  model takes the reverse of a stable ascending sort.\<close>

definition order_by_desc :: "('r \<Rightarrow> string) \<Rightarrow> 'r list \<Rightarrow> 'r list" where
  "order_by_desc key rows = rev (sort_key key rows)"

text \<open>\<^verbatim>\<open>LIMIT 1\<close> with \<^verbatim>\<open>.get()\<close>: the first row, if any.\<close>

definition first_row :: "'r list \<Rightarrow> 'r option" where
  "first_row rows = (case rows of [] \<Rightarrow> None | r # rs \<Rightarrow> Some r)"

definition getLatestCycle :: "WhoopDatabase \<Rightarrow> DbCycle option" where
  "getLatestCycle db = first_row (order_by_desc dc_start_time (cycles db))"

definition getLatestRecovery :: "WhoopDatabase \<Rightarrow> DbRecovery option" where
  "getLatestRecovery db = first_row (order_by_desc dr_created_at (recovery db))"

definition getLatestSleep :: "WhoopDatabase \<Rightarrow> DbSleep option" where
  "getLatestSleep db =
     first_row (order_by_desc ds_start_time (filter (\<lambda>r. ds_is_nap r = 0) (sleep db)))"

text \<open>\<^verbatim>\<open>column >= cutoff\<close> on text, where the cutoff may be \<^verbatim>\<open>NULL\<close>: a comparison with
  \<^verbatim>\<open>NULL\<close> is not true, and the row is not selected.\<close>

definition text_ge :: "string \<Rightarrow> string option \<Rightarrow> bool" where
  "text_ge x cutoff = (case cutoff of None \<Rightarrow> False | Some c \<Rightarrow> c \<le> x)"

text \<open>The three trend queries. Each is a selection (\<^verbatim>\<open>FROM ... WHERE ... ORDER BY\<close>)
  followed by a projection. The projected column \<^verbatim>\<open>date\<close> is SQLite's \<^verbatim>\<open>DATE\<close> of a
  text column; the model keeps that text and does not render it.\<close>

record RecoveryTrendRow =
  rt_date_of :: string
  rt_recovery_score :: "rat option"
  rt_hrv :: "rat option"
  rt_rhr :: "rat option"

record SleepTrendRow =
  st_date_of :: string
  st_total_sleep_hours :: "rat option"
  st_performance :: "rat option"
  st_efficiency :: "rat option"

record StrainTrendRow =
  sn_date_of :: string
  sn_strain :: "rat option"
  sn_calories :: "rat option"

definition recovery_trend_rows :: "instant \<Rightarrow> js_number \<Rightarrow> WhoopDatabase \<Rightarrow> DbRecovery list" where
  "recovery_trend_rows now days db =
     order_by_desc dr_created_at
       (filter (\<lambda>r. dr_recovery_score r \<noteq> None
                  \<and> text_ge (dr_created_at r) (DATE_now_minus_days now days))
          (recovery db))"

definition getRecoveryTrends :: "instant \<Rightarrow> js_number \<Rightarrow> WhoopDatabase \<Rightarrow> RecoveryTrendRow list" where
  "getRecoveryTrends now days db =
     map (\<lambda>r. \<lparr>rt_date_of = dr_created_at r, rt_recovery_score = dr_recovery_score r,
               rt_hrv = dr_hrv_rmssd r, rt_rhr = dr_resting_hr r\<rparr>)
       (recovery_trend_rows now days db)"

definition sleep_trend_rows :: "instant \<Rightarrow> js_number \<Rightarrow> WhoopDatabase \<Rightarrow> DbSleep list" where
  "sleep_trend_rows now days db =
     order_by_desc ds_start_time
       (filter (\<lambda>r. ds_is_nap r = 0 \<and> ds_sleep_performance r \<noteq> None
                  \<and> text_ge (ds_start_time r) (DATE_now_minus_days now days))
          (sleep db))"

text \<open>\<^verbatim>\<open>ROUND((total_in_bed_milli - total_awake_milli) / 3600000.0, 2)\<close>: arithmetic on
  \<^verbatim>\<open>NULL\<close> is \<^verbatim>\<open>NULL\<close>.\<close>

definition total_sleep_hours :: "DbSleep \<Rightarrow> rat option" where
  "total_sleep_hours r =
     (case (ds_total_in_bed_milli r, ds_total_awake_milli r) of
        (Some in_bed, Some awake) \<Rightarrow> Some (ROUND ((in_bed - awake) / 3600000) 2)
      | _ \<Rightarrow> None)"

definition sleep_trend_row :: "DbSleep \<Rightarrow> SleepTrendRow" where
  "sleep_trend_row r =
     \<lparr>st_date_of = ds_start_time r, st_total_sleep_hours = total_sleep_hours r,
      st_performance = ds_sleep_performance r, st_efficiency = ds_sleep_efficiency r\<rparr>"

definition getSleepTrends :: "instant \<Rightarrow> js_number \<Rightarrow> WhoopDatabase \<Rightarrow> SleepTrendRow list" where
  "getSleepTrends now days db = map sleep_trend_row (sleep_trend_rows now days db)"

definition strain_trend_rows :: "instant \<Rightarrow> js_number \<Rightarrow> WhoopDatabase \<Rightarrow> DbCycle list" where
  "strain_trend_rows now days db =
     order_by_desc dc_start_time
       (filter (\<lambda>r. dc_strain r \<noteq> None
                  \<and> text_ge (dc_start_time r) (DATE_now_minus_days now days))
          (cycles db))"

definition getStrainTrends :: "instant \<Rightarrow> js_number \<Rightarrow> WhoopDatabase \<Rightarrow> StrainTrendRow list" where
  "getStrainTrends now days db =
     map (\<lambda>r. \<lparr>sn_date_of = dc_start_time r, sn_strain = dc_strain r,
               sn_calories = map_option (\<lambda>kj. ROUND (kj / (4184 / 1000)) 0) (dc_kilojoule r)\<rparr>)
       (strain_trend_rows now days db)"

section \<open>Sync engine (\<^verbatim>\<open>sync.ts\<close>)\<close>

text \<open>A thrown JavaScript error, by its class and message.\<close>

datatype error = Error string | RangeError string | TypeError string | McpError string

fun message :: "error \<Rightarrow> string" where
  "message (Error m) = m"
| "message (RangeError m) = m"
| "message (TypeError m) = m"
| "message (McpError m) = m"

text \<open>
  The sync engine sees the gateway through the four methods \<^verbatim>\<open>getAllCycles\<close>,
  \<^verbatim>\<open>getAllRecoveries\<close>, \<^verbatim>\<open>getAllSleeps\<close> and \<^verbatim>\<open>getAllWorkouts\<close>. Here each is its
  outcome for a window \<^verbatim>\<open>{start, end}\<close>: the records of all pages, or the error the
  promise rejects with. The four fetches of a sync run side by side; \<^term>\<open>settles\<close> is
  the order in which their promises settle. The token refresh a gateway call may perform
  is modelled on its own in the next section, and the calls issued are logged in the
  world.
\<close>

datatype resource = Cycles | Recoveries | Sleeps | Workouts

record Gateway =
  getAllCycles :: "string \<Rightarrow> string \<Rightarrow> error + WhoopCycle list"
  getAllRecoveries :: "string \<Rightarrow> string \<Rightarrow> error + WhoopRecovery list"
  getAllSleeps :: "string \<Rightarrow> string \<Rightarrow> error + WhoopSleep list"
  getAllWorkouts :: "string \<Rightarrow> string \<Rightarrow> error + WhoopWorkout list"
  settles :: "resource list"

record World =
  db :: WhoopDatabase
  client_tokens :: "WhoopTokens option"
  fetched :: "(resource \<times> string \<times> string) list"

text \<open>The two clocks an operation reads: JavaScript's (\<^verbatim>\<open>new Date()\<close>,
  \<^verbatim>\<open>Date.now()\<close>) when it starts, and SQLite's (\<^verbatim>\<open>CURRENT_TIMESTAMP\<close>) when it
  writes to the store, after the fetches have been awaited.\<close>

record Clock =
  date_now :: instant
  current_timestamp :: instant

record SyncStats =
  n_cycles :: nat
  n_recoveries :: nat
  n_sleeps :: nat
  n_workouts :: nat

text \<open>The error a \<^verbatim>\<open>Promise.all\<close> rejects with: that of the promise that rejects
  first. The promises are looked at in the order they settle in, then in the order of the
  array for those the settle order leaves out.\<close>

definition failure :: "error + 'a \<Rightarrow> error option" where
  "failure r = (case r of Inl e \<Rightarrow> Some e | Inr x \<Rightarrow> None)"

definition first_rejection :: "resource list \<Rightarrow> (resource \<times> error option) list \<Rightarrow> error option" where
  "first_rejection order outcomes =
     (case List.map_filter (\<lambda>r. Option.bind (map_of outcomes r) id) (order @ map fst outcomes) of
        [] \<Rightarrow> None
      | e # es \<Rightarrow> Some e)"

text \<open>
  \<^verbatim>\<open>syncDays(days)\<close>. \<^verbatim>\<open>Promise.all\<close> starts the four fetches before it awaits any, so
  all four are issued whatever their outcomes; it rejects if one of them does, and then
  nothing is written. \<^verbatim>\<open>toISOString\<close> throws on a date out of range.
\<close>

definition syncDays ::
  "Host \<Rightarrow> Gateway \<Rightarrow> Clock \<Rightarrow> int \<Rightarrow> World \<Rightarrow> (error + SyncStats) \<times> World" where
  "syncDays host client clock days w =
     (let endDate = date_now clock;
          startDate = setDate_back host (date_now clock) days
      in case toISOString startDate of
           None \<Rightarrow> (Inl (RangeError ''Invalid time value''), w)
         | Some start \<Rightarrow>
        (case toISOString endDate of
           None \<Rightarrow> (Inl (RangeError ''Invalid time value''), w)
         | Some end' \<Rightarrow>
        (let w1 = w\<lparr>fetched := fetched w @
                    [(Cycles, start, end'), (Recoveries, start, end'),
                     (Sleeps, start, end'), (Workouts, start, end')]\<rparr>;
             c = getAllCycles client start end';
             r = getAllRecoveries client start end';
             s = getAllSleeps client start end';
             k = getAllWorkouts client start end'
         in case first_rejection (settles client)
                   [(Cycles, failure c), (Recoveries, failure r), (Sleeps, failure s),
                    (Workouts, failure k)] of
              Some e \<Rightarrow> (Inl e, w1)
            | None \<Rightarrow>
           (case c of Inl e \<Rightarrow> (Inl e, w1) | Inr cycles' \<Rightarrow>
           (case r of Inl e \<Rightarrow> (Inl e, w1) | Inr recoveries \<Rightarrow>
           (case s of Inl e \<Rightarrow> (Inl e, w1) | Inr sleeps \<Rightarrow>
           (case k of Inl e \<Rightarrow> (Inl e, w1) | Inr workouts' \<Rightarrow>
             (let now = current_timestamp clock;
                  d1 = (if length cycles' > 0 then upsertCycles now cycles' (db w1) else db w1);
                  d2 = (if length recoveries > 0 then upsertRecoveries now recoveries d1 else d1);
                  d3 = (if length sleeps > 0 then upsertSleeps now sleeps d2 else d2);
                  d4 = (if length workouts' > 0 then upsertWorkouts now workouts' d3 else d3);
                  d5 = updateSyncState now (split_head CHR ''T'' start)
                         (split_head CHR ''T'' end') d4
              in (Inr \<lparr>n_cycles = length cycles', n_recoveries = length recoveries,
                        n_sleeps = length sleeps, n_workouts = length workouts'\<rparr>,
                  w1\<lparr>db := d5\<rparr>)))))))))"

definition quickSync :: "Host \<Rightarrow> Gateway \<Rightarrow> Clock \<Rightarrow> World \<Rightarrow> (error + SyncStats) \<times> World" where
  "quickSync host client clock w = syncDays host client clock 7 w"

datatype sync_type = full | quick | skip

record SmartSyncResult =
  type :: sync_type
  stats :: "SyncStats option"

text \<open>\<^verbatim>\<open>smartSync()\<close>. \<^verbatim>\<open>!state.lastSyncAt\<close> holds when the column is \<^verbatim>\<open>NULL\<close>;
  otherwise \<^verbatim>\<open>new Date(state.lastSyncAt)\<close> reads the stored text.\<close>

definition smartSync ::
  "Host \<Rightarrow> Gateway \<Rightarrow> Clock \<Rightarrow> World \<Rightarrow> (error + SmartSyncResult) \<times> World" where
  "smartSync host client clock w =
     (let state = getSyncState (db w) in
      case last_sync_at state of
        None \<Rightarrow>
          (case syncDays host client clock 90 w of
             (Inl e, w') \<Rightarrow> (Inl e, w')
           | (Inr st, w') \<Rightarrow> (Inr \<lparr>type = full, stats = Some st\<rparr>, w'))
      | Some lastSyncAt \<Rightarrow>
          (let lastSync = Date_of_timestamp_text host lastSyncAt;
               hoursSinceSync = (of_int (date_now clock - lastSync) :: rat) / (1000 * 60 * 60)
           in if hoursSinceSync < 1 then (Inr \<lparr>type = skip, stats = None\<rparr>, w)
              else
                (case quickSync host client clock w of
                   (Inl e, w') \<Rightarrow> (Inl e, w')
                 | (Inr st, w') \<Rightarrow> (Inr \<lparr>type = quick, stats = Some st\<rparr>, w'))))"

definition needsFullSync :: "Host \<Rightarrow> instant \<Rightarrow> WhoopDatabase \<Rightarrow> bool" where
  "needsFullSync host now d =
     (case last_sync_at (getSyncState d) of
        None \<Rightarrow> True
      | Some lastSyncAt \<Rightarrow>
          (of_int (now - Date_of_timestamp_text host lastSyncAt) :: rat) / (1000 * 60 * 60) > 24)"

section \<open>Upstream gateway: authenticated requests (\<^verbatim>\<open>whoop-client.ts\<close>)\<close>

text \<open>What a \<^verbatim>\<open>fetch\<close> comes back with: the promise rejects, or the response is not
  \<^verbatim>\<open>ok\<close> (status and body text), or it is \<^verbatim>\<open>ok\<close> and carries the parsed JSON.\<close>

datatype 'a response = Rejected error | NotOk nat string | Ok 'a

record TokenGrant =
  grant_access_token :: string
  grant_refresh_token :: string
  expires_in :: int

text \<open>The requests the client sends: the refresh grant posted to the token endpoint
  (refresh token, client id, client secret), and an API \<^verbatim>\<open>GET\<close> (path, query
  parameters, bearer token).\<close>

datatype http_request =
  PostRefresh string string string
| Get string "(string \<times> string) list" string

record 'a Upstream =
  token_endpoint :: "string \<Rightarrow> string \<Rightarrow> string \<Rightarrow> TokenGrant response"
  api_endpoint :: "string \<Rightarrow> (string \<times> string) list \<Rightarrow> string \<Rightarrow> 'a response"

text \<open>The client's configuration; the callback \<^verbatim>\<open>onTokenRefresh\<close> works on a state
  \<open>'s\<close> of its owner (in \<^verbatim>\<open>index.ts\<close>, the store) and may throw.\<close>

record 's WhoopClientConfig =
  clientId :: string
  clientSecret :: string
  redirectUri :: string
  onTokenRefresh :: "(WhoopTokens \<Rightarrow> 's \<Rightarrow> error + 's) option"

record 's WhoopClient =
  held_tokens :: "WhoopTokens option"
  owner_state :: 's
  sent :: "http_request list"

definition setTokens :: "WhoopTokens \<Rightarrow> 's WhoopClient \<Rightarrow> 's WhoopClient" where
  "setTokens tk c = c\<lparr>held_tokens := Some tk\<rparr>"

text \<open>\<^verbatim>\<open>refreshTokens()\<close>; \<open>now\<close> is \<^verbatim>\<open>Date.now()\<close> once the response has arrived.
  \<^verbatim>\<open>!this.tokens?.refresh_token\<close> holds without tokens and for an empty refresh token.\<close>

definition refreshTokens ::
  "'s WhoopClientConfig \<Rightarrow> 'a Upstream \<Rightarrow> instant \<Rightarrow> 's WhoopClient \<Rightarrow> (error + unit) \<times> 's WhoopClient"
where
  "refreshTokens config up now c =
     (case held_tokens c of
        None \<Rightarrow> (Inl (Error ''No refresh token available''), c)
      | Some tk \<Rightarrow>
          if refresh_token tk = [] then (Inl (Error ''No refresh token available''), c)
          else
            (let c1 = c\<lparr>sent := sent c @
                        [PostRefresh (refresh_token tk) (clientId config) (clientSecret config)]\<rparr>
             in case token_endpoint up (refresh_token tk) (clientId config) (clientSecret config) of
                  Rejected e \<Rightarrow> (Inl e, c1)
                | NotOk status body \<Rightarrow> (Inl (Error (''Token refresh failed: '' @ body)), c1)
                | Ok data \<Rightarrow>
                    (let tk' = \<lparr>access_token = grant_access_token data,
                                refresh_token = grant_refresh_token data,
                                expires_at = now + expires_in data * 1000\<rparr>;
                         c2 = c1\<lparr>held_tokens := Some tk'\<rparr>
                     in case onTokenRefresh config of
                          None \<Rightarrow> (Inr (), c2)
                        | Some notify \<Rightarrow>
                            (case notify tk' (owner_state c2) of
                               Inl e \<Rightarrow> (Inl e, c2)
                             | Inr s' \<Rightarrow> (Inr (), c2\<lparr>owner_state := s'\<rparr>)))))"

text \<open>The decimal numeral of a status code, for the error message.\<close>

fun decimal :: "nat \<Rightarrow> string" where
  "decimal n = (if n < 10 then [digit_char n] else decimal (n div 10) @ [digit_char n])"

text \<open>\<^verbatim>\<open>request(path, params)\<close>; \<open>now\<close> is \<^verbatim>\<open>Date.now()\<close> at the expiry check and
  \<open>later\<close> the clock when the refresh response arrives. Reading
  \<^verbatim>\<open>this.tokens.access_token\<close> for the header would throw a \<^verbatim>\<open>TypeError\<close> without
  tokens; the client always holds some at that point.\<close>

definition request ::
  "'s WhoopClientConfig \<Rightarrow> 'a Upstream \<Rightarrow> instant \<Rightarrow> instant \<Rightarrow> string \<Rightarrow> (string \<times> string) list
     \<Rightarrow> 's WhoopClient \<Rightarrow> (error + 'a) \<times> 's WhoopClient"
where
  "request config up now later path params c =
     (case held_tokens c of
        None \<Rightarrow> (Inl (Error ''Not authenticated''), c)
      | Some tk \<Rightarrow>
          (case (if expires_at tk - now < 5 * 60 * 1000 then refreshTokens config up later c
                 else (Inr (), c)) of
             (Inl e, c1) \<Rightarrow> (Inl e, c1)
           | (Inr u, c1) \<Rightarrow>
               (case held_tokens c1 of
                  None \<Rightarrow> (Inl (TypeError ''Cannot read properties of null''), c1)
                | Some tk1 \<Rightarrow>
                    (let c2 = c1\<lparr>sent := sent c1 @ [Get path params (access_token tk1)]\<rparr>
                     in case api_endpoint up path params (access_token tk1) of
                          Rejected e \<Rightarrow> (Inl e, c2)
                        | NotOk status body \<Rightarrow>
                            (Inl (Error (''API request failed: '' @ decimal status @ '' '' @ body)), c2)
                        | Ok json \<Rightarrow> (Inr json, c2)))))"

section \<open>Credential store (\<^verbatim>\<open>crypto.ts\<close>, \<^verbatim>\<open>saveTokens\<close> and \<^verbatim>\<open>getTokens\<close>)\<close>

text \<open>
  The primitives of \<^verbatim>\<open>node:crypto\<close> are parameters of the model: the key derivation
  \<^verbatim>\<open>scryptSync(secret, salt, keylen)\<close>; the AES-256-GCM cipher, from key, IV and
  plaintext to ciphertext and authentication tag; and the decipher, from key, IV, tag and
  ciphertext to the plaintext, or to the error it throws. A buffer is the list of its
  bytes, and so is a text (its UTF-8 encoding).
\<close>

record Crypto =
  scryptSync :: "string \<Rightarrow> string \<Rightarrow> nat \<Rightarrow> string"
  cipher :: "string \<Rightarrow> string \<Rightarrow> string \<Rightarrow> string \<times> string"
  decipher :: "string \<Rightarrow> string \<Rightarrow> string \<Rightarrow> string \<Rightarrow> error + string"

text \<open>The two variables of \<^verbatim>\<open>process.env\<close> that \<^verbatim>\<open>getEncryptionKey\<close> reads.\<close>

record Env =
  ENCRYPTION_SECRET :: "string option"
  WHOOP_CLIENT_SECRET :: "string option"

definition KEY_LENGTH :: nat where
  "KEY_LENGTH = 32"

definition IV_LENGTH :: nat where
  "IV_LENGTH = 16"

text \<open>JavaScript's \<^verbatim>\<open>!s\<close> for a text that may be \<^verbatim>\<open>undefined\<close>: true when it is
  \<^verbatim>\<open>undefined\<close> or empty.\<close>

definition falsy :: "string option \<Rightarrow> bool" where
  "falsy s \<longleftrightarrow> (case s of None \<Rightarrow> True | Some t \<Rightarrow> t = [])"

definition getEncryptionKey :: "Crypto \<Rightarrow> Env \<Rightarrow> error + string" where
  "getEncryptionKey crypto env =
     (let secret = (if falsy (ENCRYPTION_SECRET env) then WHOOP_CLIENT_SECRET env
                    else ENCRYPTION_SECRET env)
      in case secret of
           None \<Rightarrow> Inl (Error ''No encryption secret available'')
         | Some sec \<Rightarrow>
             if sec = [] then Inl (Error ''No encryption secret available'')
             else Inr (scryptSync crypto sec ''whoop-mcp-token-encryption'' KEY_LENGTH))"

text \<open>\<^verbatim>\<open>encrypt(text)\<close>; \<open>iv\<close> is what \<^verbatim>\<open>randomBytes(IV_LENGTH)\<close> returns.\<close>

definition encrypt :: "Crypto \<Rightarrow> Env \<Rightarrow> string \<Rightarrow> string \<Rightarrow> error + string" where
  "encrypt crypto env iv text =
     (case getEncryptionKey crypto env of
        Inl e \<Rightarrow> Inl e
      | Inr key \<Rightarrow>
          (case cipher crypto key iv text of
             (encrypted, authTag) \<Rightarrow>
               Inr (to_hex iv @ '':'' @ to_hex authTag @ '':'' @ to_hex encrypted)))"

text \<open>The destructuring \<^verbatim>\<open>const [ivHex, authTagHex, encrypted] = data.split(':')\<close>:
  a missing element is \<^verbatim>\<open>undefined\<close>.\<close>

definition element :: "'a list \<Rightarrow> nat \<Rightarrow> 'a option" where
  "element xs i = (if i < length xs then Some (xs ! i) else None)"

definition decrypt :: "Crypto \<Rightarrow> Env \<Rightarrow> string \<Rightarrow> error + string" where
  "decrypt crypto env encryptedData =
     (case getEncryptionKey crypto env of
        Inl e \<Rightarrow> Inl e
      | Inr key \<Rightarrow>
          (let parts = split_at CHR '':'' encryptedData;
               ivHex = element parts 0;
               authTagHex = element parts 1;
               encrypted = element parts 2
           in if falsy ivHex \<or> falsy authTagHex \<or> falsy encrypted
              then Inl (Error ''Invalid encrypted data format'')
              else
                (case (ivHex, authTagHex, encrypted) of
                   (Some i, Some a, Some e) \<Rightarrow> decipher crypto key (from_hex i) (from_hex a) (from_hex e)
                 | _ \<Rightarrow> Inl (Error ''Invalid encrypted data format''))))"

definition isEncrypted :: "string \<Rightarrow> bool" where
  "isEncrypted data =
     (let parts = split_at CHR '':'' data
      in length parts = 3 \<and> length (parts ! 0) = IV_LENGTH * 2)"

text \<open>\<^verbatim>\<open>saveTokens\<close> encrypts both tokens, each with an IV of its own, and replaces the
  singleton row; \<^verbatim>\<open>getTokens\<close> decrypts what \<^verbatim>\<open>isEncrypted\<close> recognises.\<close>

definition saveTokens ::
  "Crypto \<Rightarrow> Env \<Rightarrow> string \<Rightarrow> string \<Rightarrow> instant \<Rightarrow> WhoopTokens \<Rightarrow> WhoopDatabase
     \<Rightarrow> error + WhoopDatabase"
where
  "saveTokens crypto env iv1 iv2 now tk d =
     (case encrypt crypto env iv1 (access_token tk) of
        Inl e \<Rightarrow> Inl e
      | Inr encryptedAccess \<Rightarrow>
          (case encrypt crypto env iv2 (refresh_token tk) of
             Inl e \<Rightarrow> Inl e
           | Inr encryptedRefresh \<Rightarrow>
               Inr (d\<lparr>tokens := Some \<lparr>tr_access_token = encryptedAccess,
                                       tr_refresh_token = encryptedRefresh,
                                       tr_expires_at = expires_at tk,
                                       tr_updated_at = now\<rparr>\<rparr>)))"

definition getTokens :: "Crypto \<Rightarrow> Env \<Rightarrow> WhoopDatabase \<Rightarrow> error + WhoopTokens option" where
  "getTokens crypto env d =
     (case tokens d of
        None \<Rightarrow> Inr None
      | Some row \<Rightarrow>
          (case (if isEncrypted (tr_access_token row) then decrypt crypto env (tr_access_token row)
                 else Inr (tr_access_token row)) of
             Inl e \<Rightarrow> Inl e
           | Inr accessToken \<Rightarrow>
               (case (if isEncrypted (tr_refresh_token row)
                      then decrypt crypto env (tr_refresh_token row)
                      else Inr (tr_refresh_token row)) of
                  Inl e \<Rightarrow> Inl e
                | Inr refreshToken \<Rightarrow>
                    Inr (Some \<lparr>access_token = accessToken, refresh_token = refreshToken,
                               expires_at = tr_expires_at row\<rparr>))))"

text \<open>What the primitives give the model: \<^verbatim>\<open>scryptSync\<close> returns a key of the length
  asked for; under a key of 32 bytes and an IV of 16, the ciphertext is as long as the
  plaintext, the tag has 16 bytes, and deciphering under the same key, IV and tag returns
  the plaintext.\<close>

definition gcm_correct :: "Crypto \<Rightarrow> bool" where
  "gcm_correct crypto \<longleftrightarrow>
     (\<forall>secret salt n. length (scryptSync crypto secret salt n) = n) \<and>
     (\<forall>key iv text. length key = KEY_LENGTH \<and> length iv = IV_LENGTH \<longrightarrow>
        (case cipher crypto key iv text of
           (encrypted, authTag) \<Rightarrow>
             length encrypted = length text \<and> length authTag = 16
             \<and> decipher crypto key iv authTag encrypted = Inr text))"

text \<open>A stand-in for the primitives that satisfies \<^const>\<open>gcm_correct\<close>, to run the
  model on concrete inputs: it is not a cipher.\<close>

definition demo_crypto :: Crypto where
  "demo_crypto =
     \<lparr>scryptSync = (\<lambda>secret salt n. take n (secret @ salt @ replicate n CHR ''0'')),
      cipher = (\<lambda>key iv text. (rev text, take 16 (key @ replicate 16 CHR ''0''))),
      decipher = (\<lambda>key iv authTag encrypted.
         if authTag = take 16 (key @ replicate 16 CHR ''0'') then Inr (rev encrypted)
         else Inl (Error ''Unsupported state or unable to authenticate data''))\<rparr>"

section \<open>Tool handlers (\<^verbatim>\<open>index.ts\<close>)\<close>

text \<open>A tool argument as it arrives from JSON: absent (\<^verbatim>\<open>undefined\<close>), \<^verbatim>\<open>null\<close>, a
  boolean, a number, a string, or an array or object, which the handlers only look at
  through the text \<^verbatim>\<open>String(value)\<close> renders it to. The handlers never take
  \<^verbatim>\<open>String(value)\<close> of a number, and \<^term>\<open>String_of\<close> has no equation for one.\<close>

datatype js_value =
  Undefined | Null | Boolean bool | Number js_number | String string | Object string

fun String_of :: "js_value \<Rightarrow> string" where
  "String_of Undefined = ''undefined''"
| "String_of Null = ''null''"
| "String_of (Boolean b) = (if b then ''true'' else ''false'')"
| "String_of (String s) = s"
| "String_of (Object s) = s"

text \<open>\<^verbatim>\<open>Number.parseInt(s, 10)\<close>: leading white space is skipped (the model knows
  ASCII's), then an optional sign and the longest run of decimal digits are read; without
  a digit the result is \<^verbatim>\<open>NaN\<close>.\<close>

definition is_space :: "char \<Rightarrow> bool" where
  "is_space c \<longleftrightarrow> c \<in> set [CHR 0x09, CHR 0x0A, CHR 0x0B, CHR 0x0C, CHR 0x0D, CHR '' '']"

definition is_digit :: "char \<Rightarrow> bool" where
  "is_digit c \<longleftrightarrow> CHR ''0'' \<le> c \<and> c \<le> CHR ''9''"

definition digits_value :: "string \<Rightarrow> nat" where
  "digits_value ds = foldl (\<lambda>a c. 10 * a + (of_char c - 48)) 0 ds"

definition parseInt :: "string \<Rightarrow> js_number" where
  "parseInt s =
     (let s1 = dropWhile is_space s;
          negative = (case s1 of c # cs \<Rightarrow> c = CHR ''-'' | [] \<Rightarrow> False);
          s2 = (case s1 of c # cs \<Rightarrow> if c = CHR ''-'' \<or> c = CHR ''+'' then cs else s1 | [] \<Rightarrow> s1);
          ds = takeWhile is_digit s2
      in if ds = [] then NaN
         else Fin (of_int ((if negative then - 1 else 1) * int (digits_value ds))))"

text \<open>\<^verbatim>\<open>Number.isNaN(x)\<close>, \<^verbatim>\<open>x < y\<close> and \<^verbatim>\<open>Math.min(x, y)\<close> on numbers.\<close>

fun isNaN :: "js_number \<Rightarrow> bool" where
  "isNaN NaN = True"
| "isNaN n = False"

fun js_less :: "js_number \<Rightarrow> js_number \<Rightarrow> bool" where
  "js_less NaN y = False"
| "js_less x NaN = False"
| "js_less (Fin a) (Fin b) = (a < b)"
| "js_less NegInf y = (y \<noteq> NegInf)"
| "js_less x PosInf = (x \<noteq> PosInf)"
| "js_less x y = False"

definition Math_min :: "js_number \<Rightarrow> js_number \<Rightarrow> js_number" where
  "Math_min x y = (if isNaN x \<or> isNaN y then NaN else if js_less y x then y else x)"

text \<open>The \<^verbatim>\<open>num\<close> of \<^verbatim>\<open>validateDays\<close>:
  \<^verbatim>\<open>typeof value === 'number' ? value : Number.parseInt(String(value), 10)\<close>.\<close>

definition days_num :: "js_value \<Rightarrow> js_number" where
  "days_num v = (case v of Number n \<Rightarrow> n | _ \<Rightarrow> parseInt (String_of v))"

definition validateDays :: "js_value \<Rightarrow> js_number" where
  "validateDays v =
     (if v = Undefined \<or> v = Null then Fin 14
      else
        (let num = days_num v
         in if isNaN num \<or> js_less num (Fin 1) then Fin 14 else Math_min num (Fin 90)))"

definition validateBoolean :: "js_value \<Rightarrow> bool" where
  "validateBoolean v =
     (case v of Boolean b \<Rightarrow> b | String s \<Rightarrow> s = ''true'' | _ \<Rightarrow> False)"

record ToolArguments =
  arg_days :: js_value
  arg_full :: js_value

text \<open>What a tool call returns. The handlers render markdown text; the model keeps the
  data the text is rendered from. \<^term>\<open>ErrorResult\<close> is the result with
  \<^verbatim>\<open>isError: true\<close> and the text \<^verbatim>\<open>Error: \<close> followed by the message.\<close>

datatype tool_result =
  NotAuthenticated
| NoDataAvailable
| TodaySummary "DbRecovery option" "DbSleep option" "DbCycle option"
| NoRecoveryData
| RecoveryTrends js_number "RecoveryTrendRow list"
| NoSleepData
| SleepAnalysis js_number "SleepTrendRow list"
| NoStrainData
| StrainHistory js_number "StrainTrendRow list"
| UpToDate
| SyncComplete "SyncStats option"
| AuthorizationUrl "string list"
| ErrorResult string

definition dataTools :: "string list" where
  "dataTools = [''get_today'', ''get_recovery_trends'', ''get_sleep_analysis'', ''get_strain_history'']"

text \<open>The four cases of the \<^verbatim>\<open>switch\<close> that answer from the store; \<open>now\<close> is the
  clock SQLite reads for \<^verbatim>\<open>DATE('now', ...)\<close>.\<close>

definition data_query :: "instant \<Rightarrow> string \<Rightarrow> ToolArguments \<Rightarrow> WhoopDatabase \<Rightarrow> tool_result" where
  "data_query now name args d =
     (if name = ''get_today'' then
        (let recovery' = getLatestRecovery d; sleep' = getLatestSleep d; cycle = getLatestCycle d
         in if recovery' = None \<and> sleep' = None \<and> cycle = None then NoDataAvailable
            else TodaySummary recovery' sleep' cycle)
      else if name = ''get_recovery_trends'' then
        (let days = validateDays (arg_days args); trends = getRecoveryTrends now days d
         in if length trends = 0 then NoRecoveryData else RecoveryTrends days trends)
      else if name = ''get_sleep_analysis'' then
        (let days = validateDays (arg_days args); trends = getSleepTrends now days d
         in if length trends = 0 then NoSleepData else SleepAnalysis days trends)
      else
        (let days = validateDays (arg_days args); trends = getStrainTrends now days d
         in if length trends = 0 then NoStrainData else StrainHistory days trends))"

definition scopes :: "string list" where
  "scopes = [''read:profile'', ''read:body_measurement'', ''read:cycles'', ''read:recovery'',
             ''read:sleep'', ''read:workout'', ''offline'']"

text \<open>The \<^verbatim>\<open>switch (name)\<close> of the handler. An error thrown in a case reaches the outer
  \<^verbatim>\<open>catch\<close>, which turns it into an \<^term>\<open>ErrorResult\<close>.\<close>

definition dispatch ::
  "Host \<Rightarrow> Crypto \<Rightarrow> Env \<Rightarrow> Gateway \<Rightarrow> Clock \<Rightarrow> string \<Rightarrow> ToolArguments \<Rightarrow> World
     \<Rightarrow> tool_result \<times> World"
where
  "dispatch host crypto env client clock name args w =
     (if name \<in> set dataTools then (data_query (current_timestamp clock) name args (db w), w)
      else if name = ''sync_data'' then
        (case getTokens crypto env (db w) of
           Inl e \<Rightarrow> (ErrorResult (message e), w)
         | Inr None \<Rightarrow> (NotAuthenticated, w)
         | Inr (Some tk) \<Rightarrow>
             (let w1 = w\<lparr>client_tokens := Some tk\<rparr>;
                  full' = validateBoolean (arg_full args)
              in if full' then
                   (case syncDays host client clock 90 w1 of
                      (Inl e, w') \<Rightarrow> (ErrorResult (message e), w')
                    | (Inr st, w') \<Rightarrow> (SyncComplete (Some st), w'))
                 else
                   (case smartSync host client clock w1 of
                      (Inl e, w') \<Rightarrow> (ErrorResult (message e), w')
                    | (Inr result, w') \<Rightarrow>
                        if type result = skip then (UpToDate, w')
                        else (SyncComplete (stats result), w'))))
      else if name = ''get_auth_url'' then (AuthorizationUrl scopes, w)
      else (ErrorResult (''MCP error -32601: Unknown tool: '' @ name), w))"

text \<open>The handler of \<^verbatim>\<open>CallToolRequestSchema\<close>: for a data tool, the stored tokens are
  loaded and a \<^verbatim>\<open>smartSync\<close> is tried first, inside a \<^verbatim>\<open>try\<close> whose \<^verbatim>\<open>catch\<close> is
  empty.\<close>

definition CallTool ::
  "Host \<Rightarrow> Crypto \<Rightarrow> Env \<Rightarrow> Gateway \<Rightarrow> Clock \<Rightarrow> string \<Rightarrow> ToolArguments \<Rightarrow> World
     \<Rightarrow> tool_result \<times> World"
where
  "CallTool host crypto env client clock name args w =
     (if name \<in> set dataTools then
        (case getTokens crypto env (db w) of
           Inl e \<Rightarrow> (ErrorResult (message e), w)
         | Inr None \<Rightarrow> (NotAuthenticated, w)
         | Inr (Some tk) \<Rightarrow>
             (let w1 = w\<lparr>client_tokens := Some tk\<rparr>;
                  w2 = snd (smartSync host client clock w1)
              in dispatch host crypto env client clock name args w2))
      else dispatch host crypto env client clock name args w)"

section \<open>Notions the properties below are stated with\<close>

text \<open>The store with the bookkeeping column \<^verbatim>\<open>synced_at\<close> of every row blanked.\<close>

definition unstamped :: "WhoopDatabase \<Rightarrow> WhoopDatabase" where
  "unstamped d =
     d\<lparr>cycles := map (\<lambda>r. r\<lparr>dc_synced_at := 0\<rparr>) (cycles d),
       recovery := map (\<lambda>r. r\<lparr>dr_synced_at := 0\<rparr>) (recovery d),
       sleep := map (\<lambda>r. r\<lparr>ds_synced_at := 0\<rparr>) (sleep d),
       workouts := map (\<lambda>r. r\<lparr>dw_synced_at := 0\<rparr>) (workouts d)\<rparr>"

text \<open>Of the rows of a batch, the last one under each key, in the order of these last
  occurrences.\<close>

fun latest :: "('r \<Rightarrow> 'k) \<Rightarrow> 'r list \<Rightarrow> 'r list" where
  "latest key [] = []"
| "latest key (r # rs) = (if key r \<in> key ` set rs then latest key rs else r # latest key rs)"

text \<open>No two rows of a table hold the same primary key.\<close>

definition keys_unique :: "WhoopDatabase \<Rightarrow> bool" where
  "keys_unique d \<longleftrightarrow>
     distinct (map dc_id (cycles d)) \<and> distinct (map dr_id (recovery d)) \<and>
     distinct (map ds_id (sleep d)) \<and> distinct (map dw_id (workouts d))"



text \<open>Sample data for running the model.\<close>

definition sample_cycle :: WhoopCycle where
  "sample_cycle =
     \<lparr>c_id = 93845, c_user_id = 10129, c_start = ''2024-01-15T04:25:44.774Z'', c_end = None,
      c_timezone_offset = ''-05:00'', c_score_state = SCORED,
      c_score = Some \<lparr>cs_strain = 5, cs_kilojoule = 8288, cs_average_heart_rate = 68,
                      cs_max_heart_rate = 141\<rparr>\<rparr>"

definition sample_recovery :: WhoopRecovery where
  "sample_recovery =
     \<lparr>r_cycle_id = 93845, r_sleep_id = ''ecfc6a15'', r_user_id = 10129,
      r_created_at = ''2024-01-15T11:25:44.774Z'', r_updated_at = ''2024-01-15T14:25:44.774Z'',
      r_score_state = SCORED,
      r_score = Some \<lparr>rs_user_calibrating = False, rs_recovery_score = 44,
                      rs_resting_heart_rate = 64, rs_hrv_rmssd_milli = 31,
                      rs_spo2_percentage = Some 95, rs_skin_temp_celsius = None\<rparr>\<rparr>"

definition sample_sleep :: WhoopSleep where
  "sample_sleep =
     \<lparr>s_id = ''ecfc6a15'', s_user_id = 10129, s_created_at = ''2024-01-15T11:25:44.774Z'',
      s_updated_at = ''2024-01-15T14:25:44.774Z'', s_start = ''2024-01-15T02:25:44.774Z'',
      s_end = ''2024-01-15T10:25:44.774Z'', s_timezone_offset = ''-05:00'', s_nap = False,
      s_score_state = PENDING_SCORE, s_score = None\<rparr>"

definition sample_workout :: WhoopWorkout where
  "sample_workout =
     \<lparr>w_id = ''1043a1f2'', w_user_id = 10129, w_created_at = ''2024-01-15T18:25:44.774Z'',
      w_updated_at = ''2024-01-15T18:55:44.774Z'', w_start = ''2024-01-15T17:25:44.774Z'',
      w_end = ''2024-01-15T18:25:44.774Z'', w_timezone_offset = ''-05:00'', w_sport_id = 1,
      w_score_state = UNSCORABLE, w_score = None\<rparr>"

text \<open>A gateway that returns a cycle, a recovery and a sleep but no workout, and a
  gateway whose recovery and workout fetches fail, the workouts first.\<close>

definition sample_gateway :: Gateway where
  "sample_gateway =
     \<lparr>getAllCycles = (\<lambda>start end'. Inr [sample_cycle]),
      getAllRecoveries = (\<lambda>start end'. Inr [sample_recovery]),
      getAllSleeps = (\<lambda>start end'. Inr [sample_sleep]),
      getAllWorkouts = (\<lambda>start end'. Inr []),
      settles = [Sleeps, Cycles, Workouts, Recoveries]\<rparr>"

definition failing_gateway :: Gateway where
  "failing_gateway =
     \<lparr>getAllCycles = (\<lambda>start end'. Inr [sample_cycle]),
      getAllRecoveries = (\<lambda>start end'. Inl (Error ''API request failed: 503 unavailable'')),
      getAllSleeps = (\<lambda>start end'. Inr [sample_sleep]),
      getAllWorkouts = (\<lambda>start end'. Inl (Error ''API request failed: 429 slow down'')),
      settles = [Sleeps, Cycles, Workouts, Recoveries]\<rparr>"

text \<open>18:00 UTC on 15 January 2024, and a store last synced at a given instant.\<close>

definition sample_clock :: Clock where
  "sample_clock = \<lparr>date_now = 1705341600000, current_timestamp = 1705341601000\<rparr>"

definition synced_at :: "instant option \<Rightarrow> World" where
  "synced_at t =
     \<lparr>db = initSchema\<lparr>sync_state :=
             \<lparr>last_sync_at = t, oldest_synced_date = map_option (\<lambda>x. ''2024-01-08'') t,
              newest_synced_date = map_option (\<lambda>x. ''2024-01-15'') t\<rparr>\<rparr>,
      client_tokens = None, fetched = []\<rparr>"

text \<open>A store whose recovery table holds a row stamped in 2030, a row of the small hours
  of 14 January 2024, a row of the last millisecond of 13 January and a row without a
  score, under the key of \<^term>\<open>sample_recovery\<close>; whose sleep table holds a scored
  night, a night with a performance but no time in bed, and a nap; and whose cycles table
  holds a scored cycle of 14 January 2024, an unscored one and a scored one of 2023.\<close>

definition cycle_at :: "int \<Rightarrow> string \<Rightarrow> rat option \<Rightarrow> DbCycle" where
  "cycle_at i start strain' =
     \<lparr>dc_id = i, dc_user_id = 10129, dc_start_time = start, dc_end_time = None,
      dc_score_state = (if strain' = None then ''PENDING_SCORE'' else ''SCORED''),
      dc_strain = strain', dc_kilojoule = map_option (\<lambda>x. 8368) strain',
      dc_avg_hr = map_option (\<lambda>x. 70) strain', dc_max_hr = map_option (\<lambda>x. 150) strain',
      dc_synced_at = 1705341601000\<rparr>"

definition recovery_at :: "int \<Rightarrow> string \<Rightarrow> rat option \<Rightarrow> DbRecovery" where
  "recovery_at i created score' =
     \<lparr>dr_id = i, dr_user_id = 10129, dr_sleep_id = ''ecfc6a15'', dr_created_at = created,
      dr_score_state = (if score' = None then ''PENDING_SCORE'' else ''SCORED''),
      dr_recovery_score = score', dr_resting_hr = map_option (\<lambda>x. 64) score',
      dr_hrv_rmssd = map_option (\<lambda>x. 31) score', dr_spo2 = None, dr_skin_temp = None,
      dr_synced_at = 1705341601000\<rparr>"

definition sleep_at ::
  "string \<Rightarrow> string \<Rightarrow> int \<Rightarrow> rat option \<Rightarrow> rat option \<Rightarrow> rat option \<Rightarrow> DbSleep" where
  "sleep_at i start nap in_bed awake performance =
     \<lparr>ds_id = i, ds_user_id = 10129, ds_cycle_id = None, ds_start_time = start,
      ds_end_time = start, ds_is_nap = nap, ds_score_state = ''SCORED'',
      ds_total_in_bed_milli = in_bed, ds_total_awake_milli = awake,
      ds_total_light_milli = None, ds_total_deep_milli = None, ds_total_rem_milli = None,
      ds_sleep_performance = performance, ds_sleep_efficiency = Some 91,
      ds_sleep_consistency = None, ds_respiratory_rate = None,
      ds_sleep_needed_baseline_milli = None, ds_sleep_needed_debt_milli = None,
      ds_sleep_needed_strain_milli = None, ds_synced_at = 1705341601000\<rparr>"

definition sample_store :: WhoopDatabase where
  "sample_store =
     initSchema
       \<lparr>recovery :=
          [recovery_at 1 ''2024-01-13T23:59:59.999Z'' (Some 61),
           recovery_at 2 ''2024-01-14T03:00:00.000Z'' (Some 44),
           recovery_at 93845 ''2024-01-15T11:25:44.774Z'' None,
           recovery_at 4 ''2030-01-01T00:00:00.000Z'' (Some 50)],
        sleep :=
          [sleep_at ''a'' ''2024-01-14T02:00:00.000Z'' 0 (Some 28800000) (Some 1800000) (Some 88),
           sleep_at ''b'' ''2024-01-15T02:00:00.000Z'' 0 None (Some 1800000) (Some 85),
           sleep_at ''c'' ''2024-01-15T14:00:00.000Z'' 1 (Some 3600000) (Some 0) (Some 70)],
        cycles :=
          [cycle_at 11 ''2024-01-14T04:00:00.000Z'' (Some 12),
           cycle_at 12 ''2024-01-15T04:00:00.000Z'' None,
           cycle_at 13 ''2023-06-01T04:00:00.000Z'' (Some 7)]\<rparr>"

text \<open>A client configuration whose callback keeps the tokens it is given; an upstream
  that honours one refresh token; and a client that holds tokens expiring at a given
  instant.\<close>

definition sample_config :: "WhoopTokens list WhoopClientConfig" where
  "sample_config =
     \<lparr>clientId = ''client-id'', clientSecret = ''client-secret'',
      redirectUri = ''http://localhost:3000/callback'',
      onTokenRefresh = Some (\<lambda>tk saved. Inr (saved @ [tk]))\<rparr>"

definition sample_upstream :: "string Upstream" where
  "sample_upstream =
     \<lparr>token_endpoint = (\<lambda>rt cid secret.
        if rt = ''refresh-1''
        then Ok \<lparr>grant_access_token = ''access-2'', grant_refresh_token = ''refresh-2'',
                 expires_in = 3600\<rparr>
        else NotOk 400 ''invalid_grant''),
      api_endpoint = (\<lambda>path params bearer.
        if bearer = ''access-1'' \<or> bearer = ''access-2'' then Ok ''{}''
        else NotOk 401 ''Unauthorized'')\<rparr>"

definition client_holding :: "int \<Rightarrow> WhoopTokens list WhoopClient" where
  "client_holding expiry =
     \<lparr>held_tokens = Some \<lparr>access_token = ''access-1'', refresh_token = ''refresh-1'',
                           expires_at = expiry\<rparr>,
      owner_state = [], sent = []\<rparr>"

text \<open>An environment with a secret, an IV of 16 bytes, and a world whose store holds the
  sample rows and a row of legacy plaintext tokens.\<close>

definition sample_env :: Env where
  "sample_env = \<lparr>ENCRYPTION_SECRET = None, WHOOP_CLIENT_SECRET = Some ''client-secret''\<rparr>"

definition sample_iv :: string where
  "sample_iv = ''0123456789abcdef''"

definition authorized_world :: World where
  "authorized_world =
     \<lparr>db = sample_store\<lparr>tokens :=
             Some \<lparr>tr_access_token = ''access-1'', tr_refresh_token = ''refresh-1'',
                   tr_expires_at = 1705345200000, tr_updated_at = 1705341600000\<rparr>\<rparr>,
      client_tokens = None, fetched = []\<rparr>"

section \<open>Properties of the merge\<close>

lemma run_all_Nil: "run_all key [] tbl = tbl"
  by (simp add: run_all_def)

lemma run_all_snoc:
  "run_all key (rows @ [r]) tbl = insert_or_replace key r (run_all key rows tbl)"
  by (simp add: run_all_def)

lemma keys_insert_or_replace:
  "key ` set (insert_or_replace key r tbl) = insert (key r) (key ` set tbl)"
  by (auto simp: insert_or_replace_def)

text \<open>A batch leaves the rows of the table whose keys it does not hold, followed by what
  it would leave in an empty table.\<close>

lemma run_all_split:
  "run_all key rows tbl = filter (\<lambda>x. key x \<notin> key ` set rows) tbl @ run_all key rows []"
proof (induction rows arbitrary: tbl rule: rev_induct)
  case Nil
  show ?case by (simp add: run_all_Nil)
next
  case (snoc r rows)
  have "run_all key (rows @ [r]) tbl
      = insert_or_replace key r
          (filter (\<lambda>x. key x \<notin> key ` set rows) tbl @ run_all key rows [])"
    using snoc.IH [of tbl] by (simp add: run_all_snoc)
  also have "\<dots> = filter (\<lambda>x. key x \<notin> key ` set (rows @ [r])) tbl
      @ insert_or_replace key r (run_all key rows [])"
    by (auto simp: insert_or_replace_def intro: filter_cong)
  finally show ?case by (simp add: run_all_snoc)
qed

lemma keys_run_all_Nil: "key ` set (run_all key rows []) = key ` set rows"
proof (induction rows rule: rev_induct)
  case Nil
  show ?case by (simp add: run_all_Nil)
next
  case (snoc r rows)
  then show ?case by (simp add: run_all_snoc keys_insert_or_replace)
qed

lemma set_run_all_Nil: "set (run_all key rows []) \<subseteq> set rows"
proof (induction rows rule: rev_induct)
  case Nil
  show ?case by (simp add: run_all_Nil)
next
  case (snoc r rows)
  then show ?case by (auto simp: run_all_snoc insert_or_replace_def)
qed

text \<open>A second batch with the same keys wipes out what the first one wrote.\<close>

lemma run_all_absorb:
  assumes "key ` set rows1 = key ` set rows2"
  shows "run_all key rows2 (run_all key rows1 tbl) = run_all key rows2 tbl"
proof -
  let ?P = "\<lambda>x. key x \<notin> key ` set rows2"
  have U: "filter ?P (run_all key rows1 []) = []"
    using keys_run_all_Nil [of key rows1] assms by (auto simp: filter_empty_conv)
  have "run_all key rows2 (run_all key rows1 tbl)
      = filter ?P (run_all key rows1 tbl) @ run_all key rows2 []"
    by (rule run_all_split)
  also have "filter ?P (run_all key rows1 tbl)
      = filter ?P (filter (\<lambda>x. key x \<notin> key ` set rows1) tbl @ run_all key rows1 [])"
    by (subst run_all_split) (rule refl)
  also have "\<dots> = filter ?P tbl"
    using U assms by simp
  finally show ?thesis by (simp add: run_all_split [symmetric])
qed

lemma distinct_insert_or_replace:
  "distinct (map key tbl) \<Longrightarrow> distinct (map key (insert_or_replace key r tbl))"
  by (auto simp: insert_or_replace_def distinct_map_filter)

lemma distinct_run_all:
  "distinct (map key tbl) \<Longrightarrow> distinct (map key (run_all key rows tbl))"
proof (induction rows rule: rev_induct)
  case Nil
  then show ?case by (simp add: run_all_Nil)
next
  case (snoc r rows)
  then show ?case by (simp add: run_all_snoc distinct_insert_or_replace)
qed

lemma map_run_all:
  assumes "\<And>x. key (f x) = key x"
  shows "map f (run_all key rows tbl) = run_all key (map f rows) (map f tbl)"
proof (induction rows rule: rev_induct)
  case Nil
  show ?case by (simp add: run_all_Nil)
next
  case (snoc r rows)
  have "map f (insert_or_replace key r t) = insert_or_replace key (f r) (map f t)" for t
    by (simp add: insert_or_replace_def filter_map comp_def assms)
  then show ?case using snoc by (simp add: run_all_snoc)
qed

text \<open>Rows that differ in their stamps only: blanking the stamps after two batches with
  the same records gives what it gives after the first.\<close>

lemma run_all_unstamped:
  assumes key: "\<And>x. key (f x) = key x"
    and rows: "map f rows2 = map f rows1"
  shows "map f (run_all key rows2 (run_all key rows1 tbl)) = map f (run_all key rows1 tbl)"
proof -
  have "map f (run_all key rows2 (run_all key rows1 tbl))
      = run_all key (map f rows1) (run_all key (map f rows1) (map f tbl))"
    by (simp add: map_run_all [of key f] key rows)
  also have "\<dots> = run_all key (map f rows1) (map f tbl)"
    by (rule run_all_absorb) (rule refl)
  finally show ?thesis by (simp add: map_run_all [of key f] key)
qed

lemma cycle_row_keys: "dc_id ` set (map (cycle_row t1) cs) = dc_id ` set (map (cycle_row t2) cs)"
  by (simp add: cycle_row_def image_image)

lemma recovery_row_keys:
  "dr_id ` set (map (recovery_row t1) rs) = dr_id ` set (map (recovery_row t2) rs)"
  by (simp add: recovery_row_def image_image)

lemma sleep_row_keys: "ds_id ` set (map (sleep_row t1) ss) = ds_id ` set (map (sleep_row t2) ss)"
  by (simp add: sleep_row_def image_image)

lemma workout_row_keys:
  "dw_id ` set (map (workout_row t1) ws) = dw_id ` set (map (workout_row t2) ws)"
  by (simp add: workout_row_def image_image)

lemma upsertCycles_twice:
  "upsertCycles t2 cs (upsertCycles t1 cs d) = upsertCycles t2 cs d"
  by (simp add: upsertCycles_def run_all_absorb [OF cycle_row_keys])

lemma upsertRecoveries_twice:
  "upsertRecoveries t2 rs (upsertRecoveries t1 rs d) = upsertRecoveries t2 rs d"
  by (simp add: upsertRecoveries_def run_all_absorb [OF recovery_row_keys])

lemma upsertSleeps_twice:
  "upsertSleeps t2 ss (upsertSleeps t1 ss d) = upsertSleeps t2 ss d"
  by (simp add: upsertSleeps_def run_all_absorb [OF sleep_row_keys])

lemma upsertWorkouts_twice:
  "upsertWorkouts t2 ws (upsertWorkouts t1 ws d) = upsertWorkouts t2 ws d"
  by (simp add: upsertWorkouts_def run_all_absorb [OF workout_row_keys])

lemma upsertCycles_unstamped:
  "unstamped (upsertCycles t2 cs (upsertCycles t1 cs d)) = unstamped (upsertCycles t1 cs d)"
proof -
  have "map (\<lambda>r. r\<lparr>dc_synced_at := 0\<rparr>) (map (cycle_row t2) cs)
      = map (\<lambda>r. r\<lparr>dc_synced_at := 0\<rparr>) (map (cycle_row t1) cs)"
    by (simp add: cycle_row_def)
  then have "map (\<lambda>r. r\<lparr>dc_synced_at := 0\<rparr>)
        (run_all dc_id (map (cycle_row t2) cs) (run_all dc_id (map (cycle_row t1) cs) (cycles d)))
      = map (\<lambda>r. r\<lparr>dc_synced_at := 0\<rparr>) (run_all dc_id (map (cycle_row t1) cs) (cycles d))"
    by (intro run_all_unstamped) simp_all
  then show ?thesis by (simp add: unstamped_def upsertCycles_def)
qed

lemma upsertRecoveries_unstamped:
  "unstamped (upsertRecoveries t2 rs (upsertRecoveries t1 rs d))
     = unstamped (upsertRecoveries t1 rs d)"
proof -
  have "map (\<lambda>r. r\<lparr>dr_synced_at := 0\<rparr>) (map (recovery_row t2) rs)
      = map (\<lambda>r. r\<lparr>dr_synced_at := 0\<rparr>) (map (recovery_row t1) rs)"
    by (simp add: recovery_row_def)
  then have "map (\<lambda>r. r\<lparr>dr_synced_at := 0\<rparr>)
        (run_all dr_id (map (recovery_row t2) rs)
           (run_all dr_id (map (recovery_row t1) rs) (recovery d)))
      = map (\<lambda>r. r\<lparr>dr_synced_at := 0\<rparr>) (run_all dr_id (map (recovery_row t1) rs) (recovery d))"
    by (intro run_all_unstamped) simp_all
  then show ?thesis by (simp add: unstamped_def upsertRecoveries_def)
qed

lemma upsertSleeps_unstamped:
  "unstamped (upsertSleeps t2 ss (upsertSleeps t1 ss d)) = unstamped (upsertSleeps t1 ss d)"
proof -
  have "map (\<lambda>r. r\<lparr>ds_synced_at := 0\<rparr>) (map (sleep_row t2) ss)
      = map (\<lambda>r. r\<lparr>ds_synced_at := 0\<rparr>) (map (sleep_row t1) ss)"
    by (simp add: sleep_row_def)
  then have "map (\<lambda>r. r\<lparr>ds_synced_at := 0\<rparr>)
        (run_all ds_id (map (sleep_row t2) ss) (run_all ds_id (map (sleep_row t1) ss) (sleep d)))
      = map (\<lambda>r. r\<lparr>ds_synced_at := 0\<rparr>) (run_all ds_id (map (sleep_row t1) ss) (sleep d))"
    by (intro run_all_unstamped) simp_all
  then show ?thesis by (simp add: unstamped_def upsertSleeps_def)
qed

lemma upsertWorkouts_unstamped:
  "unstamped (upsertWorkouts t2 ws (upsertWorkouts t1 ws d)) = unstamped (upsertWorkouts t1 ws d)"
proof -
  have "map (\<lambda>r. r\<lparr>dw_synced_at := 0\<rparr>) (map (workout_row t2) ws)
      = map (\<lambda>r. r\<lparr>dw_synced_at := 0\<rparr>) (map (workout_row t1) ws)"
    by (simp add: workout_row_def)
  then have "map (\<lambda>r. r\<lparr>dw_synced_at := 0\<rparr>)
        (run_all dw_id (map (workout_row t2) ws)
           (run_all dw_id (map (workout_row t1) ws) (workouts d)))
      = map (\<lambda>r. r\<lparr>dw_synced_at := 0\<rparr>) (run_all dw_id (map (workout_row t1) ws) (workouts d))"
    by (intro run_all_unstamped) simp_all
  then show ?thesis by (simp add: unstamped_def upsertWorkouts_def)
qed

lemma keys_unique_upsert:
  assumes "keys_unique d"
  shows "keys_unique (upsertCycles t cs d)" and "keys_unique (upsertRecoveries t rs d)"
    and "keys_unique (upsertSleeps t ss d)" and "keys_unique (upsertWorkouts t ws d)"
  using assms
  by (simp_all add: keys_unique_def upsertCycles_def upsertRecoveries_def upsertSleeps_def
      upsertWorkouts_def distinct_run_all)

text \<open>What a batch leaves, in closed form: the old rows under other keys, untouched and
  in their order, then the last row of the batch under each of its keys.\<close>

lemma latest_snoc:
  "latest key (rows @ [x]) = filter (\<lambda>r. key r \<noteq> key x) (latest key rows) @ [x]"
  by (induction rows) auto

lemma run_all_Nil_latest: "run_all key rows [] = latest key rows"
proof (induction rows rule: rev_induct)
  case Nil
  show ?case by (simp add: run_all_Nil)
next
  case (snoc x rows)
  then show ?case by (simp add: run_all_snoc latest_snoc insert_or_replace_def)
qed

lemma run_all_eq:
  "run_all key rows tbl = filter (\<lambda>x. key x \<notin> key ` set rows) tbl @ latest key rows"
  using run_all_split [of key rows tbl] by (simp add: run_all_Nil_latest)

lemma upsertCycles_eq:
  "upsertCycles t cs d =
     d\<lparr>cycles := filter (\<lambda>r. dc_id r \<notin> c_id ` set cs) (cycles d)
                     @ latest dc_id (map (cycle_row t) cs)\<rparr>"
proof -
  have "dc_id ` set (map (cycle_row t) cs) = c_id ` set cs"
    by (simp add: cycle_row_def image_image)
  then show ?thesis
    by (simp add: upsertCycles_def run_all_eq [of dc_id])
qed

lemma upsertRecoveries_eq:
  "upsertRecoveries t rs d =
     d\<lparr>recovery := filter (\<lambda>r. dr_id r \<notin> r_cycle_id ` set rs) (recovery d)
                       @ latest dr_id (map (recovery_row t) rs)\<rparr>"
proof -
  have "dr_id ` set (map (recovery_row t) rs) = r_cycle_id ` set rs"
    by (simp add: recovery_row_def image_image)
  then show ?thesis
    by (simp add: upsertRecoveries_def run_all_eq [of dr_id])
qed

lemma upsertSleeps_eq:
  "upsertSleeps t ss d =
     d\<lparr>sleep := filter (\<lambda>r. ds_id r \<notin> s_id ` set ss) (sleep d)
                    @ latest ds_id (map (sleep_row t) ss)\<rparr>"
proof -
  have "ds_id ` set (map (sleep_row t) ss) = s_id ` set ss"
    by (simp add: sleep_row_def image_image)
  then show ?thesis
    by (simp add: upsertSleeps_def run_all_eq [of ds_id])
qed

lemma upsertWorkouts_eq:
  "upsertWorkouts t ws d =
     d\<lparr>workouts := filter (\<lambda>r. dw_id r \<notin> w_id ` set ws) (workouts d)
                       @ latest dw_id (map (workout_row t) ws)\<rparr>"
proof -
  have "dw_id ` set (map (workout_row t) ws) = w_id ` set ws"
    by (simp add: workout_row_def image_image)
  then show ?thesis
    by (simp add: upsertWorkouts_def run_all_eq [of dw_id])
qed

text \<open>
  \<^bold>\<open>Claim C2, as amended.\<close> For every store and every batch of records of one kind
  (cycles, recoveries, sleeps or workouts), applying the upsert of the batch twice leaves
  exactly what the second application alone would leave: the rows of the table under the
  keys the batch does not hold, untouched, followed by one row for each key of the batch,
  written whole (\<^const>\<open>cycle_row\<close>, \<^const>\<open>recovery_row\<close>, \<^const>\<open>sleep_row\<close>,
  \<^const>\<open>workout_row\<close>) from the last record of the batch with that key: no column of
  a replaced row survives. No key comes to stand twice in a table whose keys were unique.
  Against the store after the first application, the second changes nothing but the
  column \<^verbatim>\<open>synced_at\<close>, which takes the clock reading of the second application.
\<close>

theorem upsert_twice:
  assumes "keys_unique d"
  shows
    "(upsertCycles t2 cs (upsertCycles t1 cs d) =
        d\<lparr>cycles := filter (\<lambda>r. dc_id r \<notin> c_id ` set cs) (cycles d)
                        @ latest dc_id (map (cycle_row t2) cs)\<rparr>
      \<and> upsertCycles t2 cs (upsertCycles t1 cs d) = upsertCycles t2 cs d
      \<and> unstamped (upsertCycles t2 cs (upsertCycles t1 cs d)) = unstamped (upsertCycles t1 cs d)
      \<and> keys_unique (upsertCycles t2 cs (upsertCycles t1 cs d)))
   \<and> (upsertRecoveries t2 rs (upsertRecoveries t1 rs d) =
        d\<lparr>recovery := filter (\<lambda>r. dr_id r \<notin> r_cycle_id ` set rs) (recovery d)
                          @ latest dr_id (map (recovery_row t2) rs)\<rparr>
      \<and> upsertRecoveries t2 rs (upsertRecoveries t1 rs d) = upsertRecoveries t2 rs d
      \<and> unstamped (upsertRecoveries t2 rs (upsertRecoveries t1 rs d))
          = unstamped (upsertRecoveries t1 rs d)
      \<and> keys_unique (upsertRecoveries t2 rs (upsertRecoveries t1 rs d)))
   \<and> (upsertSleeps t2 ss (upsertSleeps t1 ss d) =
        d\<lparr>sleep := filter (\<lambda>r. ds_id r \<notin> s_id ` set ss) (sleep d)
                       @ latest ds_id (map (sleep_row t2) ss)\<rparr>
      \<and> upsertSleeps t2 ss (upsertSleeps t1 ss d) = upsertSleeps t2 ss d
      \<and> unstamped (upsertSleeps t2 ss (upsertSleeps t1 ss d)) = unstamped (upsertSleeps t1 ss d)
      \<and> keys_unique (upsertSleeps t2 ss (upsertSleeps t1 ss d)))
   \<and> (upsertWorkouts t2 ws (upsertWorkouts t1 ws d) =
        d\<lparr>workouts := filter (\<lambda>r. dw_id r \<notin> w_id ` set ws) (workouts d)
                          @ latest dw_id (map (workout_row t2) ws)\<rparr>
      \<and> upsertWorkouts t2 ws (upsertWorkouts t1 ws d) = upsertWorkouts t2 ws d
      \<and> unstamped (upsertWorkouts t2 ws (upsertWorkouts t1 ws d))
          = unstamped (upsertWorkouts t1 ws d)
      \<and> keys_unique (upsertWorkouts t2 ws (upsertWorkouts t1 ws d)))"
proof -
  have c: "keys_unique (upsertCycles t2 cs (upsertCycles t1 cs d))"
    by (intro keys_unique_upsert assms)
  have r: "keys_unique (upsertRecoveries t2 rs (upsertRecoveries t1 rs d))"
    by (intro keys_unique_upsert assms)
  have s: "keys_unique (upsertSleeps t2 ss (upsertSleeps t1 ss d))"
    by (intro keys_unique_upsert assms)
  have w: "keys_unique (upsertWorkouts t2 ws (upsertWorkouts t1 ws d))"
    by (intro keys_unique_upsert assms)
  have c': "upsertCycles t2 cs (upsertCycles t1 cs d) =
      d\<lparr>cycles := filter (\<lambda>r. dc_id r \<notin> c_id ` set cs) (cycles d)
                      @ latest dc_id (map (cycle_row t2) cs)\<rparr>"
    by (simp only: upsertCycles_twice) (rule upsertCycles_eq)
  have r': "upsertRecoveries t2 rs (upsertRecoveries t1 rs d) =
      d\<lparr>recovery := filter (\<lambda>r. dr_id r \<notin> r_cycle_id ` set rs) (recovery d)
                        @ latest dr_id (map (recovery_row t2) rs)\<rparr>"
    by (simp only: upsertRecoveries_twice) (rule upsertRecoveries_eq)
  have s': "upsertSleeps t2 ss (upsertSleeps t1 ss d) =
      d\<lparr>sleep := filter (\<lambda>r. ds_id r \<notin> s_id ` set ss) (sleep d)
                     @ latest ds_id (map (sleep_row t2) ss)\<rparr>"
    by (simp only: upsertSleeps_twice) (rule upsertSleeps_eq)
  have w': "upsertWorkouts t2 ws (upsertWorkouts t1 ws d) =
      d\<lparr>workouts := filter (\<lambda>r. dw_id r \<notin> w_id ` set ws) (workouts d)
                        @ latest dw_id (map (workout_row t2) ws)\<rparr>"
    by (simp only: upsertWorkouts_twice) (rule upsertWorkouts_eq)
  show ?thesis
    by (intro conjI c r s w c' r' s' w' upsertCycles_twice upsertRecoveries_twice
        upsertSleeps_twice upsertWorkouts_twice upsertCycles_unstamped
        upsertRecoveries_unstamped upsertSleeps_unstamped upsertWorkouts_unstamped)
qed

text \<open>A re-sync over the sample store: the batch holds cycle 11, now pending and without
  a score, and a cycle the store has not seen. The stored strain of cycle 11 does not
  survive, and cycles 12 and 13 stay as they were.\<close>

theorem upsert_twice_witness:
  "keys_unique sample_store
   \<and> map (\<lambda>r. (dc_id r, dc_score_state r, dc_strain r, dc_start_time r, dc_synced_at r))
       (cycles (upsertCycles 1700000060000
          [sample_cycle\<lparr>c_id := 11, c_score_state := PENDING_SCORE, c_score := None\<rparr>, sample_cycle]
          (upsertCycles 1700000000000
             [sample_cycle\<lparr>c_id := 11, c_score_state := PENDING_SCORE, c_score := None\<rparr>,
              sample_cycle]
             sample_store)))
     = [(12, ''PENDING_SCORE'', None, ''2024-01-15T04:00:00.000Z'', 1705341601000),
        (13, ''SCORED'', Some 7, ''2023-06-01T04:00:00.000Z'', 1705341601000),
        (11, ''PENDING_SCORE'', None, ''2024-01-15T04:25:44.774Z'', 1700000060000),
        (93845, ''SCORED'', Some 5, ''2024-01-15T04:25:44.774Z'', 1700000060000)]
   \<and> map dc_strain (cycles sample_store) = [Some 12, None, Some 7]"
proof -
  let ?B = "[sample_cycle\<lparr>c_id := 11, c_score_state := PENDING_SCORE, c_score := None\<rparr>,
             sample_cycle]"
  have h: "keys_unique sample_store"
    by (simp add: keys_unique_def sample_store_def initSchema_def cycle_at_def recovery_at_def
        sleep_at_def)
  have "upsertCycles 1700000060000 ?B (upsertCycles 1700000000000 ?B sample_store) =
      sample_store\<lparr>cycles := filter (\<lambda>r. dc_id r \<notin> c_id ` set ?B) (cycles sample_store)
                        @ latest dc_id (map (cycle_row 1700000060000) ?B)\<rparr>"
    by (rule upsert_twice [OF h, of 1700000060000 ?B 1700000000000, THEN conjunct1,
          THEN conjunct1])
  then show ?thesis
    using h
    by (simp add: sample_store_def initSchema_def cycle_at_def cycle_row_def sample_cycle_def)
qed

text \<open>As the claim words it, the rows after two applications are those after one. They
  are not when the clock has moved on between the two: the stamp differs.\<close>

theorem upsert_twice_counterexample:
  "upsertCycles 1700000060000 [sample_cycle] (upsertCycles 1700000000000 [sample_cycle] initSchema)
     \<noteq> upsertCycles 1700000000000 [sample_cycle] initSchema"
  by (simp add: upsertCycles_def run_all_def insert_or_replace_def cycle_row_def initSchema_def)

section \<open>Properties of the sync-state\<close>

lemma sync_state_updateSyncState:
  "sync_state (updateSyncState t old new d) =
     \<lparr>last_sync_at = Some t,
      oldest_synced_date =
        Some (case oldest_synced_date (sync_state d) of None \<Rightarrow> old | Some x \<Rightarrow> min old x),
      newest_synced_date =
        Some (case newest_synced_date (sync_state d) of None \<Rightarrow> new | Some x \<Rightarrow> max new x)\<rparr>"
  by (auto simp: updateSyncState_def COALESCE_def Let_def min_def max_def split: option.splits)

lemma sync_state_fold:
  fixes calls :: "(instant \<times> string \<times> string) list"
  assumes "calls \<noteq> []"
    and "oldest_synced_date (sync_state d) = None"
    and "newest_synced_date (sync_state d) = None"
  shows "sync_state (foldl (\<lambda>d (t, old, new). updateSyncState t old new d) d calls) =
     \<lparr>last_sync_at = Some (fst (last calls)),
      oldest_synced_date = Some (Min (set (map (fst \<circ> snd) calls))),
      newest_synced_date = Some (Max (set (map (snd \<circ> snd) calls)))\<rparr>"
  using assms(1)
proof (induction calls rule: rev_induct)
  case Nil
  then show ?case by simp
next
  case (snoc c calls)
  obtain t old new where c: "c = (t, old, new)"
    by (cases c)
  show ?case
  proof (cases "calls = []")
    case True
    then show ?thesis
      using assms(2,3) by (simp add: c sync_state_updateSyncState)
  next
    case False
    have "Min (insert old (set (map (fst \<circ> snd) calls)))
        = min old (Min (set (map (fst \<circ> snd) calls)))"
      using False by (intro Min_insert) auto
    moreover have "Max (insert new (set (map (snd \<circ> snd) calls)))
        = max new (Max (set (map (snd \<circ> snd) calls)))"
      using False by (intro Max_insert) auto
    ultimately show ?thesis
      using snoc.IH [OF False] by (simp add: c sync_state_updateSyncState)
  qed
qed

text \<open>
  \<^bold>\<open>Claim C3.\<close> After the calls \<open>updateSyncState(o\<^sub>1, n\<^sub>1), \<dots>, updateSyncState(o\<^sub>N, n\<^sub>N)\<close>
  (\<open>N \<ge> 1\<close>) on an empty sync-state, \<^verbatim>\<open>oldest_synced_date\<close> is the least of the \<open>o\<^sub>i\<close> and
  \<^verbatim>\<open>newest_synced_date\<close> the greatest of the \<open>n\<^sub>i\<close>, in the order the store compares the
  date texts in, and \<^verbatim>\<open>last_sync_at\<close> is the clock reading of the last call. Every single
  call, on any sync-state, sets \<^verbatim>\<open>last_sync_at\<close> to its clock reading and moves each
  boundary outwards or leaves it.
\<close>

theorem updateSyncState_widens:
  fixes calls :: "(instant \<times> string \<times> string) list"
  assumes "calls \<noteq> []"
    and "sync_state d =
      \<lparr>last_sync_at = None, oldest_synced_date = None, newest_synced_date = None\<rparr>"
  shows "sync_state (foldl (\<lambda>d (t, old, new). updateSyncState t old new d) d calls) =
       \<lparr>last_sync_at = Some (fst (last calls)),
        oldest_synced_date = Some (Min (set (map (fst \<circ> snd) calls))),
        newest_synced_date = Some (Max (set (map (snd \<circ> snd) calls)))\<rparr>
     \<and> sync_state (updateSyncState t old new d') =
       \<lparr>last_sync_at = Some t,
        oldest_synced_date =
          Some (case oldest_synced_date (sync_state d') of None \<Rightarrow> old | Some x \<Rightarrow> min old x),
        newest_synced_date =
          Some (case newest_synced_date (sync_state d') of None \<Rightarrow> new | Some x \<Rightarrow> max new x)\<rparr>"
  using sync_state_fold [OF assms(1), of d] assms(2) sync_state_updateSyncState [of t old new d']
  by simp

theorem updateSyncState_widens_witness:
  "sync_state (foldl (\<lambda>d (t, old, new). updateSyncState t old new d) initSchema
       [(1705341600000, ''2023-10-17'', ''2024-01-15''),
        (1705428000000, ''2024-01-09'', ''2024-01-16''),
        (1705431600000, ''2024-01-10'', ''2024-01-16'')]) =
     \<lparr>last_sync_at = Some 1705431600000, oldest_synced_date = Some ''2023-10-17'',
      newest_synced_date = Some ''2024-01-16''\<rparr>"
  using updateSyncState_widens [of
      "[(1705341600000, ''2023-10-17'', ''2024-01-15''),
        (1705428000000, ''2024-01-09'', ''2024-01-16''),
        (1705431600000, ''2024-01-10'', ''2024-01-16'')]" initSchema]
  by (simp add: initSchema_def)


section \<open>Properties of the sync engine\<close>

lemma upsert_empty:
  "upsertCycles t [] d = d" "upsertRecoveries t [] d = d"
  "upsertSleeps t [] d = d" "upsertWorkouts t [] d = d"
  by (simp_all add: upsertCycles_def upsertRecoveries_def upsertSleeps_def upsertWorkouts_def
      run_all_Nil)

lemma split_at_prefix:
  "sep \<notin> set p \<Longrightarrow> split_at sep (p @ sep # rest) = p # split_at sep rest"
  by (induction p) auto

lemma split_at_no_sep: "sep \<notin> set p \<Longrightarrow> split_at sep p = [p]"
  by (induction p) auto

lemma split_head_prefix: "sep \<notin> set p \<Longrightarrow> split_head sep (p @ sep # rest) = p"
  by (simp add: split_head_def split_at_prefix)

lemma is_digit_digit_char: "is_digit (digit_char n)"
  by (simp add: is_digit_def digit_char_def less_eq_char_def)

lemma is_digit_pad: "c \<in> set (pad n k) \<Longrightarrow> is_digit c"
  by (induction n k rule: pad.induct) (auto simp: is_digit_digit_char)

lemma length_pad: "length (pad n k) = n"
  by (induction n k rule: pad.induct) auto

lemma is_digit_not_letter: "is_digit c \<Longrightarrow> c \<noteq> CHR ''T'' \<and> c \<noteq> CHR '':''"
  by (auto simp: is_digit_def less_eq_char_def)

text \<open>A date text holds digits, hyphens and at most a sign: no \<^verbatim>\<open>T\<close>.\<close>

lemma iso_date_no_T: "CHR ''T'' \<notin> set (iso_date t)"
proof -
  obtain y m d where c: "civil_from_days (t div msPerDay) = (y, m, d)"
    by (cases "civil_from_days (t div msPerDay)")
  have "CHR ''T'' \<notin> set (pad n k)" for n k
    using is_digit_pad [of "CHR ''T''" n k] is_digit_not_letter [of "CHR ''T''"] by blast
  then show ?thesis
    by (simp add: iso_date_def c iso_year_def pad_int_def)
qed

lemma date_part_toISOString:
  "toISOString t = Some s \<Longrightarrow> split_head CHR ''T'' s = iso_date t"
  by (auto simp: toISOString_def split_head_prefix iso_date_no_T split: if_splits)

lemma updateSyncState_tables:
  "cycles (updateSyncState t old new d) = cycles d"
  "recovery (updateSyncState t old new d) = recovery d"
  "sleep (updateSyncState t old new d) = sleep d"
  "workouts (updateSyncState t old new d) = workouts d"
  "tokens (updateSyncState t old new d) = tokens d"
  by (simp_all add: updateSyncState_def Let_def)

lemma first_rejection_none:
  assumes "\<And>r e. (r, e) \<in> set outcomes \<Longrightarrow> e = None"
  shows "first_rejection order outcomes = None"
proof -
  have "Option.bind (map_of outcomes r) id = None" for r
    using assms by (cases "map_of outcomes r") (auto dest: map_of_SomeD)
  then show ?thesis
    by (simp add: first_rejection_def List.map_filter_def)
qed

text \<open>A sync whose four fetches return records.\<close>

lemma syncDays_fetched:
  assumes "toISOString (setDate_back host (date_now clock) days) = Some start"
    and "toISOString (date_now clock) = Some end'"
    and "getAllCycles client start end' = Inr cs"
    and "getAllRecoveries client start end' = Inr rs"
    and "getAllSleeps client start end' = Inr ss"
    and "getAllWorkouts client start end' = Inr ws"
  shows "syncDays host client clock days w =
     (Inr \<lparr>n_cycles = length cs, n_recoveries = length rs, n_sleeps = length ss,
           n_workouts = length ws\<rparr>,
      w\<lparr>fetched := fetched w @
           [(Cycles, start, end'), (Recoveries, start, end'), (Sleeps, start, end'),
            (Workouts, start, end')],
        db := updateSyncState (current_timestamp clock)
                (iso_date (setDate_back host (date_now clock) days)) (iso_date (date_now clock))
                (upsertWorkouts (current_timestamp clock) ws
                  (upsertSleeps (current_timestamp clock) ss
                    (upsertRecoveries (current_timestamp clock) rs
                      (upsertCycles (current_timestamp clock) cs (db w)))))\<rparr>)"
proof -
  have "(if 0 < length cs then upsertCycles t cs d else d) = upsertCycles t cs d" for t d
    by (simp add: upsert_empty)
  moreover have "(if 0 < length rs then upsertRecoveries t rs d else d) = upsertRecoveries t rs d"
    for t d
    by (simp add: upsert_empty)
  moreover have "(if 0 < length ss then upsertSleeps t ss d else d) = upsertSleeps t ss d" for t d
    by (simp add: upsert_empty)
  moreover have "(if 0 < length ws then upsertWorkouts t ws d else d) = upsertWorkouts t ws d"
    for t d
    by (simp add: upsert_empty)
  moreover have "first_rejection (settles client)
      [(Cycles, failure (Inr cs :: error + WhoopCycle list)),
       (Recoveries, failure (Inr rs :: error + WhoopRecovery list)),
       (Sleeps, failure (Inr ss :: error + WhoopSleep list)),
       (Workouts, failure (Inr ws :: error + WhoopWorkout list))] = None"
    by (rule first_rejection_none) (auto simp: failure_def)
  ultimately show ?thesis
    using assms date_part_toISOString [OF assms(1)] date_part_toISOString [OF assms(2)]
    by (simp add: syncDays_def Let_def del: length_greater_0_conv)
qed

text \<open>A sync one of whose fetches fails: all four have been issued, nothing is written.\<close>

lemma syncDays_rejected:
  assumes "toISOString (setDate_back host (date_now clock) days) = Some start"
    and "toISOString (date_now clock) = Some end'"
    and "first_rejection (settles client)
           [(Cycles, failure (getAllCycles client start end')),
            (Recoveries, failure (getAllRecoveries client start end')),
            (Sleeps, failure (getAllSleeps client start end')),
            (Workouts, failure (getAllWorkouts client start end'))] = Some e"
  shows "syncDays host client clock days w =
     (Inl e, w\<lparr>fetched := fetched w @
           [(Cycles, start, end'), (Recoveries, start, end'), (Sleeps, start, end'),
            (Workouts, start, end')]\<rparr>)"
  using assms by (simp add: syncDays_def Let_def)

text \<open>A sync that fails has written nothing to the store.\<close>

lemma syncDays_failed_db:
  assumes "syncDays host client clock days w = (Inl e, w')"
  shows "db w' = db w"
  using assms
  by (auto simp: syncDays_def Let_def split: option.splits sum.splits)

lemma setDate_back_utc: "setDate_back utc_host t days = t - days * msPerDay"
  by (simp add: setDate_back_def UTC_def LocalTime_def utc_host_def msPerDay_def)

lemma setDate_back_same_offset:
  assumes "LocalTZA_at_local host (LocalTime host t - days * msPerDay) = LocalTZA_at_utc host t"
  shows "setDate_back host t days = t - days * msPerDay"
  using assms by (simp add: setDate_back_def UTC_def LocalTime_def msPerDay_def)

lemma sample_window:
  "toISOString (date_now sample_clock) = Some ''2024-01-15T18:00:00.000Z''"
  "toISOString (setDate_back utc_host (date_now sample_clock) 7) = Some ''2024-01-08T18:00:00.000Z''"
  "toISOString (setDate_back utc_host (date_now sample_clock) 90)
     = Some ''2023-10-17T18:00:00.000Z''"
  "iso_date (date_now sample_clock) = ''2024-01-15''"
  "iso_date (setDate_back utc_host (date_now sample_clock) 7) = ''2024-01-08''"
  "iso_date (setDate_back utc_host (date_now sample_clock) 90) = ''2023-10-17''"
  by code_simp+

text \<open>
  \<^bold>\<open>Claim C6, as amended.\<close> For every number of days, when the four fetches return
  records, \<^verbatim>\<open>syncDays(days)\<close> has fetched the four kinds over the window that ends now
  and starts \<open>days\<close> calendar days earlier at the same local time of the host, which is
  \<open>now - days\<close> days of 24 hours when the host's offset from UTC is the same at both
  ends. Afterwards each table holds its old rows under the keys not fetched, and for every
  key fetched the row of the last record fetched with that key (a kind without records
  leaves its table as it was, and the other kinds are upserted all the same); the
  sync-state has been updated with the date parts (UTC) of the two ends of the window;
  and the numbers of records fetched of each kind are returned. The two ends have to be
  dates JavaScript can render.
\<close>

theorem syncDays_window:
  assumes "toISOString (setDate_back host (date_now clock) days) = Some start"
    and "toISOString (date_now clock) = Some end'"
    and "getAllCycles client start end' = Inr cs"
    and "getAllRecoveries client start end' = Inr rs"
    and "getAllSleeps client start end' = Inr ss"
    and "getAllWorkouts client start end' = Inr ws"
    and "syncDays host client clock days w = (result, w')"
  shows "setDate_back host (date_now clock) days
         = date_now clock - days * msPerDay
           + (LocalTZA_at_utc host (date_now clock)
              - LocalTZA_at_local host (LocalTime host (date_now clock) - days * msPerDay))
     \<and> result = Inr \<lparr>n_cycles = length cs, n_recoveries = length rs, n_sleeps = length ss,
                       n_workouts = length ws\<rparr>
     \<and> fetched w' = fetched w @
           [(Cycles, start, end'), (Recoveries, start, end'), (Sleeps, start, end'),
            (Workouts, start, end')]
     \<and> cycles (db w') = filter (\<lambda>r. dc_id r \<notin> c_id ` set cs) (cycles (db w))
           @ latest dc_id (map (cycle_row (current_timestamp clock)) cs)
     \<and> recovery (db w') = filter (\<lambda>r. dr_id r \<notin> r_cycle_id ` set rs) (recovery (db w))
           @ latest dr_id (map (recovery_row (current_timestamp clock)) rs)
     \<and> sleep (db w') = filter (\<lambda>r. ds_id r \<notin> s_id ` set ss) (sleep (db w))
           @ latest ds_id (map (sleep_row (current_timestamp clock)) ss)
     \<and> workouts (db w') = filter (\<lambda>r. dw_id r \<notin> w_id ` set ws) (workouts (db w))
           @ latest dw_id (map (workout_row (current_timestamp clock)) ws)
     \<and> sync_state (db w') =
           \<lparr>last_sync_at = Some (current_timestamp clock),
            oldest_synced_date =
              Some (case oldest_synced_date (sync_state (db w)) of
                      None \<Rightarrow> iso_date (setDate_back host (date_now clock) days)
                    | Some x \<Rightarrow> min (iso_date (setDate_back host (date_now clock) days)) x),
            newest_synced_date =
              Some (case newest_synced_date (sync_state (db w)) of
                      None \<Rightarrow> iso_date (date_now clock)
                    | Some x \<Rightarrow> max (iso_date (date_now clock)) x)\<rparr>
     \<and> tokens (db w') = tokens (db w)
     \<and> client_tokens w' = client_tokens w"
proof -
  note run = syncDays_fetched [OF assms(1-6), of w]
  have res: "result = Inr \<lparr>n_cycles = length cs, n_recoveries = length rs,
      n_sleeps = length ss, n_workouts = length ws\<rparr>"
    and w': "w' = w\<lparr>fetched := fetched w @
           [(Cycles, start, end'), (Recoveries, start, end'), (Sleeps, start, end'),
            (Workouts, start, end')],
        db := updateSyncState (current_timestamp clock)
                (iso_date (setDate_back host (date_now clock) days)) (iso_date (date_now clock))
                (upsertWorkouts (current_timestamp clock) ws
                  (upsertSleeps (current_timestamp clock) ss
                    (upsertRecoveries (current_timestamp clock) rs
                      (upsertCycles (current_timestamp clock) cs (db w)))))\<rparr>"
    using run assms(7) by simp_all
  have tables:
    "cycles (db w') = filter (\<lambda>r. dc_id r \<notin> c_id ` set cs) (cycles (db w))
        @ latest dc_id (map (cycle_row (current_timestamp clock)) cs)"
    "recovery (db w') = filter (\<lambda>r. dr_id r \<notin> r_cycle_id ` set rs) (recovery (db w))
        @ latest dr_id (map (recovery_row (current_timestamp clock)) rs)"
    "sleep (db w') = filter (\<lambda>r. ds_id r \<notin> s_id ` set ss) (sleep (db w))
        @ latest ds_id (map (sleep_row (current_timestamp clock)) ss)"
    "workouts (db w') = filter (\<lambda>r. dw_id r \<notin> w_id ` set ws) (workouts (db w))
        @ latest dw_id (map (workout_row (current_timestamp clock)) ws)"
    "tokens (db w') = tokens (db w)"
    by (simp_all add: w' updateSyncState_tables upsertCycles_eq upsertRecoveries_eq
        upsertSleeps_eq upsertWorkouts_eq)
  have state: "sync_state (db w') =
      \<lparr>last_sync_at = Some (current_timestamp clock),
       oldest_synced_date =
         Some (case oldest_synced_date (sync_state (db w)) of
                 None \<Rightarrow> iso_date (setDate_back host (date_now clock) days)
               | Some x \<Rightarrow> min (iso_date (setDate_back host (date_now clock) days)) x),
       newest_synced_date =
         Some (case newest_synced_date (sync_state (db w)) of
                 None \<Rightarrow> iso_date (date_now clock)
               | Some x \<Rightarrow> max (iso_date (date_now clock)) x)\<rparr>"
    by (simp add: w' sync_state_updateSyncState upsertCycles_eq upsertRecoveries_eq
        upsertSleeps_eq upsertWorkouts_eq)
  have rest: "fetched w' = fetched w @
        [(Cycles, start, end'), (Recoveries, start, end'), (Sleeps, start, end'),
         (Workouts, start, end')]" "client_tokens w' = client_tokens w"
    by (simp_all add: w')
  have start: "setDate_back host (date_now clock) days
      = date_now clock - days * msPerDay
        + (LocalTZA_at_utc host (date_now clock)
           - LocalTZA_at_local host (LocalTime host (date_now clock) - days * msPerDay))"
    by (simp add: setDate_back_def UTC_def LocalTime_def msPerDay_def)
  show ?thesis
    by (intro conjI start res rest tables state)
qed

text \<open>A week's sync on a UTC host over the sample store, which holds a pending recovery
  under the key of the recovery fetched: that row is replaced, the others stay, and the
  workouts, of which none is fetched, stay as they were.\<close>

theorem syncDays_window_witness:
  "toISOString (setDate_back utc_host (date_now sample_clock) 7) = Some ''2024-01-08T18:00:00.000Z''
   \<and> toISOString (date_now sample_clock) = Some ''2024-01-15T18:00:00.000Z''
   \<and> getAllRecoveries sample_gateway ''2024-01-08T18:00:00.000Z'' ''2024-01-15T18:00:00.000Z''
       = Inr [sample_recovery]
   \<and> getAllWorkouts sample_gateway ''2024-01-08T18:00:00.000Z'' ''2024-01-15T18:00:00.000Z''
       = Inr []
   \<and> fst (syncDays utc_host sample_gateway sample_clock 7 authorized_world)
       = Inr \<lparr>n_cycles = 1, n_recoveries = 1, n_sleeps = 1, n_workouts = 0\<rparr>
   \<and> fetched (snd (syncDays utc_host sample_gateway sample_clock 7 authorized_world))
       = [(Cycles, ''2024-01-08T18:00:00.000Z'', ''2024-01-15T18:00:00.000Z''),
          (Recoveries, ''2024-01-08T18:00:00.000Z'', ''2024-01-15T18:00:00.000Z''),
          (Sleeps, ''2024-01-08T18:00:00.000Z'', ''2024-01-15T18:00:00.000Z''),
          (Workouts, ''2024-01-08T18:00:00.000Z'', ''2024-01-15T18:00:00.000Z'')]
   \<and> map (\<lambda>r. (dr_id r, dr_score_state r, dr_recovery_score r, dr_created_at r, dr_synced_at r))
       (recovery (db (snd (syncDays utc_host sample_gateway sample_clock 7 authorized_world))))
       = [(1, ''SCORED'', Some 61, ''2024-01-13T23:59:59.999Z'', 1705341601000),
          (2, ''SCORED'', Some 44, ''2024-01-14T03:00:00.000Z'', 1705341601000),
          (4, ''SCORED'', Some 50, ''2030-01-01T00:00:00.000Z'', 1705341601000),
          (93845, ''SCORED'', Some 44, ''2024-01-15T11:25:44.774Z'', 1705341601000)]
   \<and> map dr_recovery_score (recovery (db authorized_world)) = [Some 61, Some 44, None, Some 50]
   \<and> map dc_id (cycles (db (snd (syncDays utc_host sample_gateway sample_clock 7
         authorized_world)))) = [11, 12, 13, 93845]
   \<and> map ds_id (sleep (db (snd (syncDays utc_host sample_gateway sample_clock 7
         authorized_world)))) = [''a'', ''b'', ''c'', ''ecfc6a15'']
   \<and> workouts (db (snd (syncDays utc_host sample_gateway sample_clock 7 authorized_world))) = []
   \<and> sync_state (db (snd (syncDays utc_host sample_gateway sample_clock 7 authorized_world)))
       = \<lparr>last_sync_at = Some 1705341601000, oldest_synced_date = Some ''2024-01-08'',
          newest_synced_date = Some ''2024-01-15''\<rparr>"
proof -
  let ?run = "syncDays utc_host sample_gateway sample_clock 7 authorized_world"
  have c: "getAllCycles sample_gateway ''2024-01-08T18:00:00.000Z'' ''2024-01-15T18:00:00.000Z''
      = Inr [sample_cycle]"
    and r: "getAllRecoveries sample_gateway ''2024-01-08T18:00:00.000Z''
      ''2024-01-15T18:00:00.000Z'' = Inr [sample_recovery]"
    and s: "getAllSleeps sample_gateway ''2024-01-08T18:00:00.000Z'' ''2024-01-15T18:00:00.000Z''
      = Inr [sample_sleep]"
    and k: "getAllWorkouts sample_gateway ''2024-01-08T18:00:00.000Z''
      ''2024-01-15T18:00:00.000Z'' = Inr []"
    by (simp_all add: sample_gateway_def)
  have t: "current_timestamp sample_clock = 1705341601000"
    by (simp add: sample_clock_def)
  have p: "?run = (fst ?run, snd ?run)"
    by simp
  note facts = syncDays_window [OF sample_window(2) sample_window(1) c r s k p, THEN conjunct2]
  have d: "db authorized_world = sample_store\<lparr>tokens :=
      Some \<lparr>tr_access_token = ''access-1'', tr_refresh_token = ''refresh-1'',
            tr_expires_at = 1705345200000, tr_updated_at = 1705341600000\<rparr>\<rparr>"
    "fetched authorized_world = []"
    by (simp_all add: authorized_world_def)
  show ?thesis
    using facts
    by (simp add: sample_window r k t d sample_store_def initSchema_def recovery_at_def
        cycle_at_def sleep_at_def cycle_row_def recovery_row_def sleep_row_def
        sample_cycle_def sample_recovery_def sample_sleep_def)
qed

text \<open>As the claim words it, the window starts at \<open>now - days\<close>. At 18:00 UTC on 2 April
  2024, on a host whose clocks went forward on 31 March, a week's sync fetches from 19:00
  UTC on 26 March, where \<open>now\<close> less seven days of 24 hours is 18:00 UTC.\<close>

theorem syncDays_window_counterexample:
  "fetched (snd (syncDays summer_time_host sample_gateway
       \<lparr>date_now = 1712080800000, current_timestamp = 1712080801000\<rparr> 7 (synced_at None)))
     = [(Cycles, ''2024-03-26T19:00:00.000Z'', ''2024-04-02T18:00:00.000Z''),
        (Recoveries, ''2024-03-26T19:00:00.000Z'', ''2024-04-02T18:00:00.000Z''),
        (Sleeps, ''2024-03-26T19:00:00.000Z'', ''2024-04-02T18:00:00.000Z''),
        (Workouts, ''2024-03-26T19:00:00.000Z'', ''2024-04-02T18:00:00.000Z'')]
   \<and> toISOString (1712080800000 - 7 * msPerDay) = Some ''2024-03-26T18:00:00.000Z''"
proof -
  let ?clock = "\<lparr>date_now = 1712080800000, current_timestamp = 1712080801000\<rparr>"
  have a: "toISOString (setDate_back summer_time_host (date_now ?clock) 7)
      = Some ''2024-03-26T19:00:00.000Z''"
    by code_simp
  have b: "toISOString (date_now ?clock) = Some ''2024-04-02T18:00:00.000Z''"
    by code_simp
  have e: "toISOString (1712080800000 - 7 * msPerDay) = Some ''2024-03-26T18:00:00.000Z''"
    by code_simp
  have g: "getAllCycles sample_gateway x y = Inr [sample_cycle]"
    "getAllRecoveries sample_gateway x y = Inr [sample_recovery]"
    "getAllSleeps sample_gateway x y = Inr [sample_sleep]"
    "getAllWorkouts sample_gateway x y = Inr []" for x y
    by (simp_all add: sample_gateway_def)
  show ?thesis
    unfolding syncDays_fetched [OF a b g]
    by (simp add: e synced_at_def)
qed

section \<open>The staleness policy\<close>

text \<open>\<^verbatim>\<open>smartSync()\<close> is decided by \<^verbatim>\<open>last_sync_at\<close>, the clock and the time zone of the
  host: the stored stamp is a UTC reading that is read back as local time.\<close>

lemma smartSync_decision:
  "smartSync host client clock w =
     (case last_sync_at (sync_state (db w)) of
        None \<Rightarrow>
          (case syncDays host client clock 90 w of
             (Inl e, w') \<Rightarrow> (Inl e, w')
           | (Inr st, w') \<Rightarrow> (Inr \<lparr>type = full, stats = Some st\<rparr>, w'))
      | Some stamp \<Rightarrow>
          if date_now clock - (stamp - LocalTZA_at_local host stamp) < 3600000
          then (Inr \<lparr>type = skip, stats = None\<rparr>, w)
          else
            (case syncDays host client clock 7 w of
               (Inl e, w') \<Rightarrow> (Inl e, w')
             | (Inr st, w') \<Rightarrow> (Inr \<lparr>type = quick, stats = Some st\<rparr>, w')))"
proof -
  have "((of_int x :: rat) / (1000 * 60 * 60) < 1) = (x < 3600000)" for x :: int
    by (simp add: divide_less_eq)
  then show ?thesis
    by (simp add: smartSync_def getSyncState_def quickSync_def Let_def
        Date_of_timestamp_text_def UTC_def split: option.split)
qed

text \<open>
  \<^bold>\<open>Claim C1: where the code departs from it.\<close> The store was synced at 16:00 UTC and it
  is 18:00 UTC, two hours later. On a host five hours behind UTC \<^verbatim>\<open>smartSync()\<close> takes
  the stored \<^verbatim>\<open>16:00:00\<close> for local time, that is for 21:00 UTC, finds fewer than one
  hour elapsed, and skips: no fetch, no write. On a UTC host the same call is a quick sync
  of the last seven days.
\<close>

theorem smartSync_reads_stamp_as_local_time:
  "smartSync utc_minus_5_host sample_gateway sample_clock (synced_at (Some 1705334400000))
     = (Inr \<lparr>type = skip, stats = None\<rparr>, synced_at (Some 1705334400000))
   \<and> date_now sample_clock - 1705334400000 = 2 * 3600000
   \<and> fst (smartSync utc_host sample_gateway sample_clock (synced_at (Some 1705334400000)))
       = Inr \<lparr>type = quick,
              stats = Some \<lparr>n_cycles = 1, n_recoveries = 1, n_sleeps = 1, n_workouts = 0\<rparr>\<rparr>
   \<and> fetched (snd (smartSync utc_host sample_gateway sample_clock
         (synced_at (Some 1705334400000))))
       = [(Cycles, ''2024-01-08T18:00:00.000Z'', ''2024-01-15T18:00:00.000Z''),
          (Recoveries, ''2024-01-08T18:00:00.000Z'', ''2024-01-15T18:00:00.000Z''),
          (Sleeps, ''2024-01-08T18:00:00.000Z'', ''2024-01-15T18:00:00.000Z''),
          (Workouts, ''2024-01-08T18:00:00.000Z'', ''2024-01-15T18:00:00.000Z'')]"
proof -
  have g: "getAllCycles sample_gateway a b = Inr [sample_cycle]"
    "getAllRecoveries sample_gateway a b = Inr [sample_recovery]"
    "getAllSleeps sample_gateway a b = Inr [sample_sleep]"
    "getAllWorkouts sample_gateway a b = Inr []" for a b
    by (simp_all add: sample_gateway_def)
  note week = syncDays_fetched [OF sample_window(2) sample_window(1) g]
  have now: "date_now sample_clock = 1705341600000"
    by (simp add: sample_clock_def)
  have s: "last_sync_at (sync_state (db (synced_at t))) = t" "fetched (synced_at t) = []" for t
    by (simp_all add: synced_at_def initSchema_def)
  have z: "LocalTZA_at_local utc_minus_5_host t = - 18000000" "LocalTZA_at_local utc_host t = 0"
    for t
    by (simp_all add: utc_minus_5_host_def utc_host_def)
  show ?thesis
    unfolding smartSync_decision s z
    by (simp add: now week s)
qed


section \<open>Properties of the trend queries\<close>

lemma set_order_by_desc: "set (order_by_desc key rows) = set rows"
  by (simp add: order_by_desc_def)







text \<open>
  \<^bold>\<open>Claim C10.\<close> The sleep trend filters on \<^verbatim>\<open>sleep_performance\<close> alone: a stored night
  (not a nap) within the window whose \<^verbatim>\<open>sleep_performance\<close> is not null and whose
  \<^verbatim>\<open>total_in_bed_milli\<close> or \<^verbatim>\<open>total_awake_milli\<close> is null is returned, and its
  \<^verbatim>\<open>total_sleep_hours\<close> is null.
\<close>

theorem sleep_trend_null_hours:
  assumes "r \<in> set (sleep d)"
    and "ds_is_nap r = 0"
    and "ds_sleep_performance r \<noteq> None"
    and "text_ge (ds_start_time r) (DATE_now_minus_days now days)"
    and "ds_total_in_bed_milli r = None \<or> ds_total_awake_milli r = None"
  shows "r \<in> set (sleep_trend_rows now days d)
     \<and> sleep_trend_row r \<in> set (getSleepTrends now days d)
     \<and> st_total_sleep_hours (sleep_trend_row r) = None
     \<and> st_performance (sleep_trend_row r) = ds_sleep_performance r"
proof -
  have sel: "r \<in> set (sleep_trend_rows now days d)"
    using assms(1-4) by (simp add: sleep_trend_rows_def set_order_by_desc)
  have none: "total_sleep_hours r = None"
    using assms(5) by (auto simp: total_sleep_hours_def split: option.splits)
  have "sleep_trend_row r \<in> set (getSleepTrends now days d)"
    using sel by (simp add: getSleepTrends_def)
  then show ?thesis
    using sel none by (simp add: sleep_trend_row_def)
qed

lemma sample_week_cutoff: "DATE_now_minus_days 1705341600000 (Fin 7) = Some ''2024-01-08''"
  by code_simp

theorem sleep_trend_null_hours_witness:
  "sleep_at ''b'' ''2024-01-15T02:00:00.000Z'' 0 None (Some 1800000) (Some 85)
     \<in> set (sleep sample_store)
   \<and> text_ge ''2024-01-15T02:00:00.000Z'' (DATE_now_minus_days 1705341600000 (Fin 7))
   \<and> getSleepTrends 1705341600000 (Fin 7) sample_store =
       [\<lparr>st_date_of = ''2024-01-15T02:00:00.000Z'', st_total_sleep_hours = None,
         st_performance = Some 85, st_efficiency = Some 91\<rparr>,
        \<lparr>st_date_of = ''2024-01-14T02:00:00.000Z'', st_total_sleep_hours = Some (15 / 2),
         st_performance = Some 88, st_efficiency = Some 91\<rparr>]"
proof -
  let ?r = "sleep_at ''b'' ''2024-01-15T02:00:00.000Z'' 0 None (Some 1800000) (Some 85)"
  have m: "?r \<in> set (sleep sample_store)"
    by (simp add: sample_store_def initSchema_def)
  have n: "ds_is_nap ?r = 0" and p: "ds_sleep_performance ?r \<noteq> None"
    and b: "ds_total_in_bed_milli ?r = None \<or> ds_total_awake_milli ?r = None"
    by (simp_all add: sleep_at_def)
  have t: "text_ge (ds_start_time ?r) (DATE_now_minus_days 1705341600000 (Fin 7))"
    by (simp add: sleep_at_def sample_week_cutoff text_ge_def)
  have h: "ROUND (15 / 2) 2 = 15 / 2"
    by code_simp
  note sleep_trend_null_hours [OF m n p t b]
  then show ?thesis
    using m t
    by (simp add: getSleepTrends_def sleep_trend_rows_def sleep_trend_row_def
        total_sleep_hours_def sample_week_cutoff text_ge_def sample_store_def initSchema_def
        sleep_at_def order_by_desc_def h)
qed


section \<open>Properties of the gateway's requests\<close>

text \<open>A request with tokens good for five minutes or more: no refresh, one \<^verbatim>\<open>GET\<close> with
  the token held.\<close>

lemma request_fresh:
  assumes "held_tokens c = Some tk" and "\<not> expires_at tk - now < 5 * 60 * 1000"
  shows "request config up now later path params c =
     (case api_endpoint up path params (access_token tk) of
        Rejected e \<Rightarrow> Inl e
      | NotOk status body \<Rightarrow>
          Inl (Error (''API request failed: '' @ decimal status @ '' '' @ body))
      | Ok json \<Rightarrow> Inr json,
      c\<lparr>sent := sent c @ [Get path params (access_token tk)]\<rparr>)"
  using assms by (simp add: request_def split: response.split)

text \<open>A request with tokens about to expire goes through \<^verbatim>\<open>refreshTokens()\<close> first.\<close>

lemma request_expiring:
  assumes "held_tokens c = Some tk" and "expires_at tk - now < 5 * 60 * 1000"
  shows "request config up now later path params c =
     (case refreshTokens config up later c of
        (Inl e, c1) \<Rightarrow> (Inl e, c1)
      | (Inr u, c1) \<Rightarrow>
          (case held_tokens c1 of
             None \<Rightarrow> (Inl (TypeError ''Cannot read properties of null''), c1)
           | Some tk1 \<Rightarrow>
               (case api_endpoint up path params (access_token tk1) of
                  Rejected e \<Rightarrow> Inl e
                | NotOk status body \<Rightarrow>
                    Inl (Error (''API request failed: '' @ decimal status @ '' '' @ body))
                | Ok json \<Rightarrow> Inr json,
                c1\<lparr>sent := sent c1 @ [Get path params (access_token tk1)]\<rparr>)))"
  using assms
  by (simp add: request_def split: response.split prod.split sum.split option.split)

text \<open>The outcomes of \<^verbatim>\<open>refreshTokens()\<close>.\<close>

lemma refreshTokens_cases:
  assumes "held_tokens c = Some tk"
  shows "(refresh_token tk = []
          \<and> refreshTokens config up later c = (Inl (Error ''No refresh token available''), c))
       \<or> (refresh_token tk \<noteq> []
          \<and> (\<exists>e c1. refreshTokens config up later c = (Inl e, c1)
                \<and> sent c1 = sent c @
                    [PostRefresh (refresh_token tk) (clientId config) (clientSecret config)]))
       \<or> (refresh_token tk \<noteq> []
          \<and> (\<exists>data c1.
                token_endpoint up (refresh_token tk) (clientId config) (clientSecret config)
                  = Ok data
                \<and> refreshTokens config up later c = (Inr (), c1)
                \<and> sent c1 = sent c @
                    [PostRefresh (refresh_token tk) (clientId config) (clientSecret config)]
                \<and> held_tokens c1 =
                    Some \<lparr>access_token = grant_access_token data,
                          refresh_token = grant_refresh_token data,
                          expires_at = later + expires_in data * 1000\<rparr>
                \<and> (case onTokenRefresh config of
                      None \<Rightarrow> owner_state c1 = owner_state c
                    | Some notify \<Rightarrow>
                        notify \<lparr>access_token = grant_access_token data,
                                refresh_token = grant_refresh_token data,
                                expires_at = later + expires_in data * 1000\<rparr> (owner_state c)
                          = Inr (owner_state c1))))"
proof (cases "refresh_token tk = []")
  case True
  then show ?thesis
    using assms by (simp add: refreshTokens_def)
next
  case False
  show ?thesis
  proof (cases "token_endpoint up (refresh_token tk) (clientId config) (clientSecret config)")
    case (Rejected e)
    then show ?thesis
      using assms False by (simp add: refreshTokens_def Let_def)
  next
    case (NotOk status body)
    then show ?thesis
      using assms False by (simp add: refreshTokens_def Let_def)
  next
    case (Ok data)
    let ?tk' = "\<lparr>access_token = grant_access_token data,
      refresh_token = grant_refresh_token data, expires_at = later + expires_in data * 1000\<rparr>"
    show ?thesis
    proof (cases "onTokenRefresh config")
      case None
      then show ?thesis
        using assms False Ok by (simp add: refreshTokens_def Let_def)
    next
      case (Some notify)
      show ?thesis
      proof (cases "notify ?tk' (owner_state c)")
        case (Inl e)
        then show ?thesis
          using assms False Ok Some by (simp add: refreshTokens_def Let_def)
      next
        case (Inr s')
        then show ?thesis
          using assms False Ok Some by (simp add: refreshTokens_def Let_def)
      qed
    qed
  qed
qed

text \<open>
  \<^bold>\<open>Claim C4.\<close> For a request of a client that holds tokens: when \<open>expires_at - now\<close> is
  five minutes or more, no refresh is posted and the one request sent is the \<^verbatim>\<open>GET\<close>
  with the token held. When it is less, \<^verbatim>\<open>refreshTokens()\<close> runs before anything else,
  and either the request ends in an error without any \<^verbatim>\<open>GET\<close> (there is no refresh
  token and nothing is sent, or the refresh was posted and it or the callback failed), or
  the refresh was posted and answered, the client holds the new tokens, the callback has
  been given them, and the \<^verbatim>\<open>GET\<close> that follows carries the new access token.
\<close>

theorem request_refreshes_iff_expiring:
  assumes "held_tokens c = Some tk"
    and "request config up now later path params c = (result, c')"
  shows "if expires_at tk - now < 5 * 60 * 1000
     then (refresh_token tk = [] \<and> result = Inl (Error ''No refresh token available'')
             \<and> sent c' = sent c)
        \<or> ((\<exists>e. result = Inl e)
             \<and> sent c' = sent c @
                 [PostRefresh (refresh_token tk) (clientId config) (clientSecret config)])
        \<or> (\<exists>data.
              token_endpoint up (refresh_token tk) (clientId config) (clientSecret config) = Ok data
              \<and> sent c' = sent c @
                  [PostRefresh (refresh_token tk) (clientId config) (clientSecret config),
                   Get path params (grant_access_token data)]
              \<and> held_tokens c' =
                  Some \<lparr>access_token = grant_access_token data,
                        refresh_token = grant_refresh_token data,
                        expires_at = later + expires_in data * 1000\<rparr>
              \<and> (case onTokenRefresh config of
                    None \<Rightarrow> owner_state c' = owner_state c
                  | Some notify \<Rightarrow>
                      notify \<lparr>access_token = grant_access_token data,
                              refresh_token = grant_refresh_token data,
                              expires_at = later + expires_in data * 1000\<rparr> (owner_state c)
                        = Inr (owner_state c')))
     else sent c' = sent c @ [Get path params (access_token tk)]
        \<and> held_tokens c' = Some tk \<and> owner_state c' = owner_state c"
proof (cases "expires_at tk - now < 5 * 60 * 1000")
  case False
  then show ?thesis
    using request_fresh [OF assms(1) False, of config up later path params] assms
    by auto
next
  case True
  note req = request_expiring [OF assms(1) True, of config up later path params]
  from refreshTokens_cases [OF assms(1), of config up later]
  consider
    (none) "refresh_token tk = []"
      "refreshTokens config up later c = (Inl (Error ''No refresh token available''), c)"
    | (failed) e c1 where "refreshTokens config up later c = (Inl e, c1)"
      "sent c1 = sent c @
         [PostRefresh (refresh_token tk) (clientId config) (clientSecret config)]"
    | (refreshed) data c1 where
      "token_endpoint up (refresh_token tk) (clientId config) (clientSecret config) = Ok data"
      "refreshTokens config up later c = (Inr (), c1)"
      "sent c1 = sent c @
         [PostRefresh (refresh_token tk) (clientId config) (clientSecret config)]"
      "held_tokens c1 =
         Some \<lparr>access_token = grant_access_token data,
               refresh_token = grant_refresh_token data,
               expires_at = later + expires_in data * 1000\<rparr>"
      "case onTokenRefresh config of
         None \<Rightarrow> owner_state c1 = owner_state c
       | Some notify \<Rightarrow>
           notify \<lparr>access_token = grant_access_token data,
                   refresh_token = grant_refresh_token data,
                   expires_at = later + expires_in data * 1000\<rparr> (owner_state c)
             = Inr (owner_state c1)"
    by blast
  then show ?thesis
  proof cases
    case none
    then show ?thesis
      using req assms(2) True by simp
  next
    case failed
    then show ?thesis
      using req assms(2) True by auto
  next
    case refreshed
    have "c' = c1\<lparr>sent := sent c1 @ [Get path params (grant_access_token data)]\<rparr>"
      using req assms(2) refreshed(2,4) by (simp split: response.splits)
    then have "sent c' = sent c @
        [PostRefresh (refresh_token tk) (clientId config) (clientSecret config),
         Get path params (grant_access_token data)]"
      "held_tokens c' = held_tokens c1" "owner_state c' = owner_state c1"
      using refreshed(3) by simp_all
    then show ?thesis
      using True refreshed(1,4,5) by (auto split: option.splits)
  qed
qed

text \<open>Tokens good for one more minute are refreshed before the \<^verbatim>\<open>GET\<close>, which carries
  the new access token; tokens good for an hour are used as they are; and tokens about to
  expire whose refresh is refused end the request before any \<^verbatim>\<open>GET\<close>.\<close>

theorem request_refreshes_iff_expiring_witness:
  "request sample_config sample_upstream 1705341600000 1705341600250 ''/v2/cycle'' []
       (client_holding (1705341600000 + 60000))
     = (Inr ''{}'',
        \<lparr>held_tokens = Some \<lparr>access_token = ''access-2'', refresh_token = ''refresh-2'',
                              expires_at = 1705341600250 + 3600 * 1000\<rparr>,
         owner_state = [\<lparr>access_token = ''access-2'', refresh_token = ''refresh-2'',
                         expires_at = 1705341600250 + 3600 * 1000\<rparr>],
         sent = [PostRefresh ''refresh-1'' ''client-id'' ''client-secret'',
                 Get ''/v2/cycle'' [] ''access-2'']\<rparr>)
   \<and> sent (snd (request sample_config sample_upstream 1705341600000 1705341600250 ''/v2/cycle'' []
         (client_holding (1705341600000 + 3600000))))
       = [Get ''/v2/cycle'' [] ''access-1'']
   \<and> request sample_config sample_upstream 1705341600000 1705341600250 ''/v2/cycle'' []
       ((client_holding (1705341600000 + 60000))
          \<lparr>held_tokens := Some \<lparr>access_token = ''access-1'', refresh_token = ''revoked'',
                                 expires_at = 1705341600000 + 60000\<rparr>\<rparr>)
     = (Inl (Error ''Token refresh failed: invalid_grant''),
        \<lparr>held_tokens = Some \<lparr>access_token = ''access-1'', refresh_token = ''revoked'',
                              expires_at = 1705341600000 + 60000\<rparr>,
         owner_state = [],
         sent = [PostRefresh ''revoked'' ''client-id'' ''client-secret'']\<rparr>)"
proof -
  let ?fresh = "client_holding (1705341600000 + 3600000)"
  let ?run = "request sample_config sample_upstream 1705341600000 1705341600250 ''/v2/cycle'' []
    ?fresh"
  have h: "held_tokens ?fresh = Some \<lparr>access_token = ''access-1'',
      refresh_token = ''refresh-1'', expires_at = 1705341600000 + 3600000\<rparr>"
    by (simp add: client_holding_def)
  have p: "?run = (fst ?run, snd ?run)"
    by simp
  have fresh: "sent (snd ?run) = [Get ''/v2/cycle'' [] ''access-1'']"
    using request_refreshes_iff_expiring [OF h p] by (simp add: client_holding_def)
  have expiring: "request sample_config sample_upstream 1705341600000 1705341600250
      ''/v2/cycle'' [] (client_holding (1705341600000 + 60000))
     = (Inr ''{}'',
        \<lparr>held_tokens = Some \<lparr>access_token = ''access-2'', refresh_token = ''refresh-2'',
                              expires_at = 1705341600250 + 3600 * 1000\<rparr>,
         owner_state = [\<lparr>access_token = ''access-2'', refresh_token = ''refresh-2'',
                         expires_at = 1705341600250 + 3600 * 1000\<rparr>],
         sent = [PostRefresh ''refresh-1'' ''client-id'' ''client-secret'',
                 Get ''/v2/cycle'' [] ''access-2'']\<rparr>)"
    by (simp add: request_def refreshTokens_def client_holding_def sample_config_def
        sample_upstream_def Let_def)
  have refused: "request sample_config sample_upstream 1705341600000 1705341600250
      ''/v2/cycle'' []
       ((client_holding (1705341600000 + 60000))
          \<lparr>held_tokens := Some \<lparr>access_token = ''access-1'', refresh_token = ''revoked'',
                                 expires_at = 1705341600000 + 60000\<rparr>\<rparr>)
     = (Inl (Error ''Token refresh failed: invalid_grant''),
        \<lparr>held_tokens = Some \<lparr>access_token = ''access-1'', refresh_token = ''revoked'',
                              expires_at = 1705341600000 + 60000\<rparr>,
         owner_state = [],
         sent = [PostRefresh ''revoked'' ''client-id'' ''client-secret'']\<rparr>)"
    by (simp add: request_def refreshTokens_def client_holding_def sample_config_def
        sample_upstream_def Let_def)
  show ?thesis
    using fresh expiring refused by simp
qed


section \<open>Properties of the credential store\<close>

lemma hex_value_hex_digit: "n < 16 \<Longrightarrow> hex_value (hex_digit n) = Some n"
proof -
  assume "n < 16"
  then consider "n < 10" | "10 \<le> n" "n < 16"
    by linarith
  then show ?thesis
    by cases (auto simp: hex_value_def hex_digit_def Let_def)
qed

lemma hex_digit_not_colon: "n < 16 \<Longrightarrow> hex_digit n \<noteq> CHR '':''"
proof -
  assume n: "n < 16"
  have "of_char (hex_digit n) \<noteq> (58 :: nat)"
    using n by (auto simp: hex_digit_def)
  then show ?thesis
    by auto
qed

lemma from_hex_to_hex: "from_hex (to_hex bs) = bs"
proof (induction bs)
  case Nil
  show ?case by simp
next
  case (Cons b bs)
  have "(of_char b :: nat) < 256"
    by simp
  then have d: "(of_char b :: nat) div 16 < 16"
    by (simp add: less_mult_imp_div_less)
  have m: "(of_char b :: nat) mod 16 < 16"
    by simp
  have "char_of (16 * (of_char b div 16) + of_char b mod 16 :: nat) = b"
    by simp
  then show ?case
    using Cons by (simp add: hex_value_hex_digit [OF d] hex_value_hex_digit [OF m])
qed

lemma to_hex_no_colon: "CHR '':'' \<notin> set (to_hex bs)"
proof (induction bs)
  case Nil
  show ?case by simp
next
  case (Cons b bs)
  have "(of_char b :: nat) < 256"
    by simp
  then have "(of_char b :: nat) div 16 < 16"
    by (simp add: less_mult_imp_div_less)
  then have "hex_digit (of_char b div 16) \<noteq> CHR '':''"
    by (rule hex_digit_not_colon)
  moreover have "hex_digit (of_char b mod 16) \<noteq> CHR '':''"
    by (rule hex_digit_not_colon) simp
  ultimately show ?case
    using Cons by auto
qed

lemma length_to_hex: "length (to_hex bs) = 2 * length bs"
  by (induction bs) auto

lemma to_hex_empty: "to_hex bs = [] \<longleftrightarrow> bs = []"
  by (cases bs) auto

text \<open>What \<^verbatim>\<open>split(':')\<close> makes of the text \<^verbatim>\<open>encrypt\<close> builds.\<close>

lemma split_encrypted:
  "split_at CHR '':'' (to_hex iv @ CHR '':'' # to_hex tag @ CHR '':'' # to_hex ct)
     = [to_hex iv, to_hex tag, to_hex ct]"
proof -
  have "split_at CHR '':'' (to_hex iv @ CHR '':'' # (to_hex tag @ CHR '':'' # to_hex ct))
      = to_hex iv # split_at CHR '':'' (to_hex tag @ CHR '':'' # to_hex ct)"
    by (rule split_at_prefix) (rule to_hex_no_colon)
  also have "split_at CHR '':'' (to_hex tag @ CHR '':'' # to_hex ct)
      = to_hex tag # split_at CHR '':'' (to_hex ct)"
    by (rule split_at_prefix) (rule to_hex_no_colon)
  also have "split_at CHR '':'' (to_hex ct) = [to_hex ct]"
    by (rule split_at_no_sep) (rule to_hex_no_colon)
  finally show ?thesis
    by simp
qed

lemma key_length:
  assumes "gcm_correct crypto" and "getEncryptionKey crypto env = Inr key"
  shows "length key = KEY_LENGTH"
  using assms
  by (auto simp: gcm_correct_def getEncryptionKey_def Let_def split: option.splits if_splits)

lemma gcm_cipher:
  assumes "gcm_correct crypto" and "length key = KEY_LENGTH" and "length iv = IV_LENGTH"
    and "cipher crypto key iv text = (encrypted, tag)"
  shows "length encrypted = length text" and "length tag = 16"
    and "decipher crypto key iv tag encrypted = Inr text"
proof -
  have "\<forall>key iv text. length key = KEY_LENGTH \<and> length iv = IV_LENGTH \<longrightarrow>
          (case cipher crypto key iv text of
             (encrypted, authTag) \<Rightarrow>
               length encrypted = length text \<and> length authTag = 16
               \<and> decipher crypto key iv authTag encrypted = Inr text)"
    using assms(1) unfolding gcm_correct_def by (rule conjunct2)
  then have "length key = KEY_LENGTH \<and> length iv = IV_LENGTH \<longrightarrow>
          (case cipher crypto key iv text of
             (encrypted, authTag) \<Rightarrow>
               length encrypted = length text \<and> length authTag = 16
               \<and> decipher crypto key iv authTag encrypted = Inr text)"
    by (elim allE)
  then have "case cipher crypto key iv text of
           (encrypted, authTag) \<Rightarrow>
             length encrypted = length text \<and> length authTag = 16
             \<and> decipher crypto key iv authTag encrypted = Inr text"
    using assms(2,3) by simp
  then show "length encrypted = length text" and "length tag = 16"
    and "decipher crypto key iv tag encrypted = Inr text"
    using assms(4) by simp_all
qed

text \<open>Every text \<^verbatim>\<open>encrypt\<close> returns is recognised by \<^verbatim>\<open>isEncrypted\<close>.\<close>

lemma isEncrypted_encrypt:
  assumes "encrypt crypto env iv text = Inr c" and "length iv = IV_LENGTH"
  shows "isEncrypted c"
proof -
  obtain key where k: "getEncryptionKey crypto env = Inr key"
    using assms(1) by (cases "getEncryptionKey crypto env") (auto simp: encrypt_def)
  obtain encrypted tag where e: "cipher crypto key iv text = (encrypted, tag)"
    by (cases "cipher crypto key iv text")
  have "c = to_hex iv @ '':'' @ to_hex tag @ '':'' @ to_hex encrypted"
    using assms(1) k e by (simp add: encrypt_def)
  then show ?thesis
    using assms(2) by (simp add: isEncrypted_def split_encrypted length_to_hex Let_def)
qed

text \<open>A text that is not empty comes back from \<^verbatim>\<open>decrypt\<close> as it went into
  \<^verbatim>\<open>encrypt\<close>.\<close>

lemma decrypt_encrypt:
  assumes "gcm_correct crypto" and "getEncryptionKey crypto env = Inr key"
    and "length iv = IV_LENGTH" and "text \<noteq> []"
  shows "\<exists>c. encrypt crypto env iv text = Inr c \<and> decrypt crypto env c = Inr text"
proof -
  obtain encrypted tag where e: "cipher crypto key iv text = (encrypted, tag)"
    by (cases "cipher crypto key iv text")
  have "length key = KEY_LENGTH"
    using assms(1,2) by (rule key_length)
  then have g: "length encrypted = length text" "length tag = 16"
    "decipher crypto key iv tag encrypted = Inr text"
    using gcm_cipher [OF assms(1) _ assms(3) e] by simp_all
  have ne: "to_hex iv \<noteq> []" "to_hex tag \<noteq> []" "to_hex encrypted \<noteq> []"
    using g assms(3,4) by (auto simp: to_hex_empty IV_LENGTH_def)
  let ?c = "to_hex iv @ '':'' @ to_hex tag @ '':'' @ to_hex encrypted"
  have "encrypt crypto env iv text = Inr ?c"
    using assms(2) e by (simp add: encrypt_def)
  moreover have "decrypt crypto env ?c = Inr text"
    using assms(2) ne g(3)
    by (simp add: decrypt_def split_encrypted element_def falsy_def from_hex_to_hex Let_def)
  ultimately show ?thesis
    by blast
qed

text \<open>\<^verbatim>\<open>getTokens\<close> returns legacy plaintext tokens as they are stored.\<close>

lemma getTokens_legacy:
  assumes "tokens d = Some row"
    and "\<not> isEncrypted (tr_access_token row)" and "\<not> isEncrypted (tr_refresh_token row)"
  shows "getTokens crypto env d =
     Inr (Some \<lparr>access_token = tr_access_token row, refresh_token = tr_refresh_token row,
                expires_at = tr_expires_at row\<rparr>)"
  using assms by (simp add: getTokens_def)

text \<open>\<^verbatim>\<open>getTokens\<close> returns what \<^verbatim>\<open>saveTokens\<close> stored, when neither token is empty.\<close>

lemma getTokens_saveTokens:
  assumes "gcm_correct crypto" and "getEncryptionKey crypto env = Inr key"
    and "length iv1 = IV_LENGTH" and "length iv2 = IV_LENGTH"
    and "access_token tk \<noteq> []" and "refresh_token tk \<noteq> []"
  shows "\<exists>d'. saveTokens crypto env iv1 iv2 now tk d = Inr d'
     \<and> getTokens crypto env d' =
         Inr (Some \<lparr>access_token = access_token tk, refresh_token = refresh_token tk,
                    expires_at = expires_at tk\<rparr>)"
proof -
  obtain a where a: "encrypt crypto env iv1 (access_token tk) = Inr a"
    "decrypt crypto env a = Inr (access_token tk)"
    using decrypt_encrypt [OF assms(1,2,3,5)] by blast
  obtain r where r: "encrypt crypto env iv2 (refresh_token tk) = Inr r"
    "decrypt crypto env r = Inr (refresh_token tk)"
    using decrypt_encrypt [OF assms(1,2,4,6)] by blast
  have "isEncrypted a" "isEncrypted r"
    using a(1) r(1) assms(3,4) by (auto intro: isEncrypted_encrypt)
  then show ?thesis
    using a r by (simp add: saveTokens_def getTokens_def)
qed

lemma demo_crypto_correct: "gcm_correct demo_crypto"
  by (auto simp: gcm_correct_def demo_crypto_def KEY_LENGTH_def min_def)

lemma sample_key:
  "getEncryptionKey demo_crypto sample_env = Inr ''client-secretwhoop-mcp-token-enc''"
  by (simp add: getEncryptionKey_def demo_crypto_def sample_env_def falsy_def KEY_LENGTH_def
      Let_def)

text \<open>
  \<^bold>\<open>Claim C7: where the code departs from it.\<close> With a secret available, a cipher that
  works and an IV of 16 bytes, \<^verbatim>\<open>encrypt('')\<close> returns a text that \<^verbatim>\<open>isEncrypted\<close>
  recognises and that \<^verbatim>\<open>decrypt\<close> refuses: the ciphertext of the empty text is empty,
  the text returned ends in a colon, and \<^verbatim>\<open>decrypt\<close> takes its empty third part for a
  missing one. The same holds of the token load after a token save when a token is
  empty.
\<close>

theorem decrypt_refuses_encrypted_empty_text:
  assumes "gcm_correct crypto" and "getEncryptionKey crypto env = Inr key"
    and "length iv = IV_LENGTH"
  shows "\<exists>c. encrypt crypto env iv [] = Inr c \<and> isEncrypted c
     \<and> decrypt crypto env c = Inl (Error ''Invalid encrypted data format'')"
proof -
  obtain encrypted tag where e: "cipher crypto key iv [] = (encrypted, tag)"
    by (cases "cipher crypto key iv []")
  have "length key = KEY_LENGTH"
    using assms(1,2) by (rule key_length)
  then have "length encrypted = 0"
    using gcm_cipher(1) [OF assms(1) _ assms(3) e] by simp
  then have empty: "encrypted = []"
    by simp
  let ?c = "to_hex iv @ '':'' @ to_hex tag @ '':'' @ to_hex encrypted"
  have enc: "encrypt crypto env iv [] = Inr ?c"
    using assms(2) e by (simp add: encrypt_def)
  have "decrypt crypto env ?c = Inl (Error ''Invalid encrypted data format'')"
    using assms(2) split_encrypted [of iv tag encrypted] empty
    by (simp add: decrypt_def element_def falsy_def Let_def)
  then show ?thesis
    using enc isEncrypted_encrypt [OF enc assms(3)] by blast
qed

theorem decrypt_refuses_encrypted_empty_text_witness:
  "gcm_correct demo_crypto
   \<and> getEncryptionKey demo_crypto sample_env = Inr ''client-secretwhoop-mcp-token-enc''
   \<and> length sample_iv = IV_LENGTH
   \<and> encrypt demo_crypto sample_env sample_iv []
       = Inr ''30313233343536373839616263646566:636c69656e742d73656372657477686f:''
   \<and> isEncrypted ''30313233343536373839616263646566:636c69656e742d73656372657477686f:''
   \<and> decrypt demo_crypto sample_env ''30313233343536373839616263646566:636c69656e742d73656372657477686f:''
       = Inl (Error ''Invalid encrypted data format'')
   \<and> decrypt demo_crypto sample_env
         ''30313233343536373839616263646566:636c69656e742d73656372657477686f:636261''
       = Inr ''abc''"
proof -
  have l: "length sample_iv = IV_LENGTH"
    by (simp add: sample_iv_def IV_LENGTH_def)
  have e: "encrypt demo_crypto sample_env sample_iv []
      = Inr ''30313233343536373839616263646566:636c69656e742d73656372657477686f:''"
    by code_simp
  have d: "decrypt demo_crypto sample_env
        ''30313233343536373839616263646566:636c69656e742d73656372657477686f:636261'' = Inr ''abc''"
    by code_simp
  from decrypt_refuses_encrypted_empty_text [OF demo_crypto_correct sample_key l]
  obtain c where c: "encrypt demo_crypto sample_env sample_iv [] = Inr c"
    and i: "isEncrypted c"
    and r: "decrypt demo_crypto sample_env c = Inl (Error ''Invalid encrypted data format'')"
    by blast
  have "Inr c = (Inr ''30313233343536373839616263646566:636c69656e742d73656372657477686f:''
      :: error + string)"
    using c e by (rule trans [OF sym])
  then have cc: "c = ''30313233343536373839616263646566:636c69656e742d73656372657477686f:''"
    by (rule Inr_inject)
  show ?thesis
    using demo_crypto_correct sample_key l e i r d unfolding cc by (intro conjI)
qed


section \<open>Properties of the tool handlers\<close>






text \<open>A \<^verbatim>\<open>smartSync\<close> that fails has written nothing to the store.\<close>

lemma smartSync_failed_db:
  assumes "smartSync host client clock w = (Inl e, w')"
  shows "db w' = db w"
proof (cases "last_sync_at (getSyncState (db w))")
  case None
  then have "syncDays host client clock 90 w = (Inl e, w')"
    using assms
    by (cases "syncDays host client clock 90 w") (auto simp: smartSync_def split: sum.splits)
  then show ?thesis
    by (rule syncDays_failed_db)
next
  case (Some stamp)
  then have "syncDays host client clock 7 w = (Inl e, w')"
    using assms
    by (cases "syncDays host client clock 7 w")
      (auto simp: smartSync_def quickSync_def Let_def split: sum.splits if_splits)
  then show ?thesis
    by (rule syncDays_failed_db)
qed

lemma data_query_not_error: "data_query now name args d \<noteq> ErrorResult m"
  by (simp add: data_query_def Let_def)

text \<open>
  \<^bold>\<open>Claim C9.\<close> With tokens in the store: when the \<^verbatim>\<open>smartSync\<close> that precedes a data
  tool (\<^verbatim>\<open>get_today\<close> or a trend tool) fails, the call returns what the query returns on
  the store as it was before the call, the store is unchanged, and the result is not an
  error result. When the sync of \<^verbatim>\<open>sync_data\<close> fails, be it the 90-day sync of
  \<^verbatim>\<open>full\<close> or the \<^verbatim>\<open>smartSync\<close> otherwise, the call returns the error result that
  carries the message of the error.
\<close>

theorem sync_failure_swallowed_or_surfaced:
  assumes "getTokens crypto env (db w) = Inr (Some tk)"
  shows "(name \<in> set dataTools
          \<and> smartSync host client clock (w\<lparr>client_tokens := Some tk\<rparr>) = (Inl e, w')
        \<longrightarrow> CallTool host crypto env client clock name args w
             = (data_query (current_timestamp clock) name args (db w), w')
            \<and> db w' = db w
            \<and> (\<forall>m. fst (CallTool host crypto env client clock name args w) \<noteq> ErrorResult m))
     \<and> (validateBoolean (arg_full args)
          \<and> syncDays host client clock 90 (w\<lparr>client_tokens := Some tk\<rparr>) = (Inl e, w')
        \<longrightarrow> CallTool host crypto env client clock ''sync_data'' args w
             = (ErrorResult (message e), w'))
     \<and> (\<not> validateBoolean (arg_full args)
          \<and> smartSync host client clock (w\<lparr>client_tokens := Some tk\<rparr>) = (Inl e, w')
        \<longrightarrow> CallTool host crypto env client clock ''sync_data'' args w
             = (ErrorResult (message e), w'))"
proof (intro conjI impI)
  assume a: "name \<in> set dataTools
    \<and> smartSync host client clock (w\<lparr>client_tokens := Some tk\<rparr>) = (Inl e, w')"
  then have d: "db w' = db w"
    using smartSync_failed_db [of host client clock "w\<lparr>client_tokens := Some tk\<rparr>" e w']
    by simp
  show c: "CallTool host crypto env client clock name args w
      = (data_query (current_timestamp clock) name args (db w), w')"
    using a assms d by (simp add: CallTool_def dispatch_def Let_def)
  show "db w' = db w"
    by (rule d)
  show "\<forall>m. fst (CallTool host crypto env client clock name args w) \<noteq> ErrorResult m"
    by (simp add: c data_query_not_error)
next
  assume "validateBoolean (arg_full args)
    \<and> syncDays host client clock 90 (w\<lparr>client_tokens := Some tk\<rparr>) = (Inl e, w')"
  then show "CallTool host crypto env client clock ''sync_data'' args w
      = (ErrorResult (message e), w')"
    using assms by (simp add: CallTool_def dispatch_def dataTools_def Let_def)
next
  assume "\<not> validateBoolean (arg_full args)
    \<and> smartSync host client clock (w\<lparr>client_tokens := Some tk\<rparr>) = (Inl e, w')"
  then show "CallTool host crypto env client clock ''sync_data'' args w
      = (ErrorResult (message e), w')"
    using assms by (simp add: CallTool_def dispatch_def dataTools_def Let_def)
qed

text \<open>The sample world against the gateway whose fetches fail: the store has never been
  synced, so \<^verbatim>\<open>smartSync\<close> starts the 90-day sync, whose first rejection is that of the
  workouts.\<close>

lemma sample_tokens:
  "getTokens demo_crypto sample_env (db authorized_world) =
     Inr (Some \<lparr>access_token = ''access-1'', refresh_token = ''refresh-1'',
                expires_at = 1705345200000\<rparr>)"
proof -
  have "\<not> isEncrypted ''access-1''" "\<not> isEncrypted ''refresh-1''"
    by (simp_all add: isEncrypted_def Let_def IV_LENGTH_def)
  then show ?thesis
    by (simp add: getTokens_def authorized_world_def)
qed

lemma sample_failed_syncDays:
  "syncDays utc_host failing_gateway sample_clock 90 w =
     (Inl (Error ''API request failed: 429 slow down''),
      w\<lparr>fetched := fetched w @
          [(Cycles, ''2023-10-17T18:00:00.000Z'', ''2024-01-15T18:00:00.000Z''),
           (Recoveries, ''2023-10-17T18:00:00.000Z'', ''2024-01-15T18:00:00.000Z''),
           (Sleeps, ''2023-10-17T18:00:00.000Z'', ''2024-01-15T18:00:00.000Z''),
           (Workouts, ''2023-10-17T18:00:00.000Z'', ''2024-01-15T18:00:00.000Z'')]\<rparr>)"
  by (rule syncDays_rejected [OF sample_window(3) sample_window(1)])
    (simp add: first_rejection_def failing_gateway_def failure_def List.map_filter_def)

lemma sample_failed_smartSync:
  "last_sync_at (getSyncState (db w)) = None \<Longrightarrow>
   smartSync utc_host failing_gateway sample_clock w =
     (Inl (Error ''API request failed: 429 slow down''),
      w\<lparr>fetched := fetched w @
          [(Cycles, ''2023-10-17T18:00:00.000Z'', ''2024-01-15T18:00:00.000Z''),
           (Recoveries, ''2023-10-17T18:00:00.000Z'', ''2024-01-15T18:00:00.000Z''),
           (Sleeps, ''2023-10-17T18:00:00.000Z'', ''2024-01-15T18:00:00.000Z''),
           (Workouts, ''2023-10-17T18:00:00.000Z'', ''2024-01-15T18:00:00.000Z'')]\<rparr>)"
  by (simp add: smartSync_def sample_failed_syncDays)

lemma sample_today:
  "data_query 1705341601000 ''get_today'' args (db authorized_world) =
     TodaySummary (Some (recovery_at 4 ''2030-01-01T00:00:00.000Z'' (Some 50)))
       (Some (sleep_at ''b'' ''2024-01-15T02:00:00.000Z'' 0 None (Some 1800000) (Some 85)))
       (Some (cycle_at 12 ''2024-01-15T04:00:00.000Z'' None))"
  by (simp add: data_query_def getLatestRecovery_def getLatestSleep_def getLatestCycle_def
      authorized_world_def sample_store_def initSchema_def order_by_desc_def first_row_def
      recovery_at_def sleep_at_def cycle_at_def)

theorem sync_failure_swallowed_or_surfaced_witness:
  "getTokens demo_crypto sample_env (db authorized_world) =
     Inr (Some \<lparr>access_token = ''access-1'', refresh_token = ''refresh-1'',
                expires_at = 1705345200000\<rparr>)
   \<and> fst (smartSync utc_host failing_gateway sample_clock
        (authorized_world\<lparr>client_tokens :=
           Some \<lparr>access_token = ''access-1'', refresh_token = ''refresh-1'',
                 expires_at = 1705345200000\<rparr>\<rparr>))
       = Inl (Error ''API request failed: 429 slow down'')
   \<and> fst (CallTool utc_host demo_crypto sample_env failing_gateway sample_clock ''get_today''
        \<lparr>arg_days = Undefined, arg_full = Undefined\<rparr> authorized_world)
       = TodaySummary (Some (recovery_at 4 ''2030-01-01T00:00:00.000Z'' (Some 50)))
           (Some (sleep_at ''b'' ''2024-01-15T02:00:00.000Z'' 0 None (Some 1800000) (Some 85)))
           (Some (cycle_at 12 ''2024-01-15T04:00:00.000Z'' None))
   \<and> db (snd (CallTool utc_host demo_crypto sample_env failing_gateway sample_clock ''get_today''
        \<lparr>arg_days = Undefined, arg_full = Undefined\<rparr> authorized_world))
       = db authorized_world
   \<and> fst (CallTool utc_host demo_crypto sample_env failing_gateway sample_clock ''sync_data''
        \<lparr>arg_days = Undefined, arg_full = Boolean True\<rparr> authorized_world)
       = ErrorResult ''API request failed: 429 slow down''
   \<and> fst (CallTool utc_host demo_crypto sample_env failing_gateway sample_clock ''sync_data''
        \<lparr>arg_days = Undefined, arg_full = Undefined\<rparr> authorized_world)
       = ErrorResult ''API request failed: 429 slow down''"
proof -
  let ?tk = "\<lparr>access_token = ''access-1'', refresh_token = ''refresh-1'',
               expires_at = 1705345200000\<rparr>"
  let ?w1 = "authorized_world\<lparr>client_tokens := Some ?tk\<rparr>"
  let ?w' = "?w1\<lparr>fetched := fetched ?w1 @
          [(Cycles, ''2023-10-17T18:00:00.000Z'', ''2024-01-15T18:00:00.000Z''),
           (Recoveries, ''2023-10-17T18:00:00.000Z'', ''2024-01-15T18:00:00.000Z''),
           (Sleeps, ''2023-10-17T18:00:00.000Z'', ''2024-01-15T18:00:00.000Z''),
           (Workouts, ''2023-10-17T18:00:00.000Z'', ''2024-01-15T18:00:00.000Z'')]\<rparr>"
  have never: "last_sync_at (getSyncState (db ?w1)) = None"
    by (simp add: getSyncState_def authorized_world_def sample_store_def initSchema_def)
  have smart: "smartSync utc_host failing_gateway sample_clock ?w1
      = (Inl (Error ''API request failed: 429 slow down''), ?w')"
    using never by (rule sample_failed_smartSync)
  have days: "syncDays utc_host failing_gateway sample_clock 90 ?w1
      = (Inl (Error ''API request failed: 429 slow down''), ?w')"
    by (rule sample_failed_syncDays)
  have now: "current_timestamp sample_clock = 1705341601000"
    by (simp add: sample_clock_def)
  note policy = sync_failure_swallowed_or_surfaced [OF sample_tokens, of _ utc_host
      failing_gateway sample_clock "Error ''API request failed: 429 slow down''" ?w']
  have "CallTool utc_host demo_crypto sample_env failing_gateway sample_clock ''get_today''
        \<lparr>arg_days = Undefined, arg_full = Undefined\<rparr> authorized_world
      = (data_query (current_timestamp sample_clock) ''get_today''
           \<lparr>arg_days = Undefined, arg_full = Undefined\<rparr> (db authorized_world), ?w')"
    using policy [of "''get_today''" "\<lparr>arg_days = Undefined, arg_full = Undefined\<rparr>"] smart
    by (simp add: dataTools_def)
  then have today: "fst (CallTool utc_host demo_crypto sample_env failing_gateway sample_clock
        ''get_today'' \<lparr>arg_days = Undefined, arg_full = Undefined\<rparr> authorized_world)
      = TodaySummary (Some (recovery_at 4 ''2030-01-01T00:00:00.000Z'' (Some 50)))
           (Some (sleep_at ''b'' ''2024-01-15T02:00:00.000Z'' 0 None (Some 1800000) (Some 85)))
           (Some (cycle_at 12 ''2024-01-15T04:00:00.000Z'' None))"
    and kept: "db (snd (CallTool utc_host demo_crypto sample_env failing_gateway sample_clock
        ''get_today'' \<lparr>arg_days = Undefined, arg_full = Undefined\<rparr> authorized_world))
      = db authorized_world"
    by (simp_all add: now sample_today)
  have manual_full: "fst (CallTool utc_host demo_crypto sample_env failing_gateway sample_clock
        ''sync_data'' \<lparr>arg_days = Undefined, arg_full = Boolean True\<rparr> authorized_world)
      = ErrorResult ''API request failed: 429 slow down''"
    using policy [of "''sync_data''" "\<lparr>arg_days = Undefined, arg_full = Boolean True\<rparr>"] days
    by (simp add: validateBoolean_def)
  have manual: "fst (CallTool utc_host demo_crypto sample_env failing_gateway sample_clock
        ''sync_data'' \<lparr>arg_days = Undefined, arg_full = Undefined\<rparr> authorized_world)
      = ErrorResult ''API request failed: 429 slow down''"
    using policy [of "''sync_data''" "\<lparr>arg_days = Undefined, arg_full = Undefined\<rparr>"] smart
    by (simp add: validateBoolean_def)
  show ?thesis
    using sample_tokens smart today kept manual_full manual by simp
qed


end
